theory Spec2Isabelle
  imports Complex_Main "HOL-Library.Log_Nat"
begin

section \<open>The file upload field of neo.mjs (src/form/field/FileUpload.mjs)\<close>

text \<open>
  The widget \<^verbatim>\<open>Neo.form.field.FileUpload\<close> is embedded as pure functions on a record of
  its fields. Each handler of the class is one function that takes the widget and returns
  the widget it leaves behind, together with the effects it requested from the browser
  (timers, fetch requests, the XMLHttpRequest). An \<^verbatim>\<open>async\<close> method is cut at its
  \<^verbatim>\<open>await\<close>: the part before it and the part after it are two functions, and the event
  loop below runs them in any order the browser may.
\<close>

subsection \<open>JavaScript values\<close>

text \<open>
  Values that reach the widget from JSON bodies and configs. The widget never computes
  with a number of a body or a config; it tests it and prints it. So \<open>Num s\<close> is the
  number that \<^verbatim>\<open>String\<close> prints as \<open>s\<close> (a double has one such text: 7 is "7", 2^60 is
  "1152921504606847000", 10^21 is "1e+21"). The own properties of an object are such
  values, never functions. \<open>Native k\<close> is the built-in member that a property read finds
  on \<^verbatim>\<open>Object.prototype\<close> under the key \<open>k\<close>.
\<close>

datatype jsval =
    Undefined
  | Null
  | Bool bool
  | Num string
  | Str string
  | Arr "jsval list"
  | Obj "(string \<times> jsval) list"
  | Native string

text \<open>ToBoolean.\<close>

fun truthy :: "jsval \<Rightarrow> bool" where
  "truthy Undefined = False"
| "truthy Null = False"
| "truthy (Bool b) = b"
| "truthy (Num s) = (s \<noteq> ''0'' \<and> s \<noteq> ''NaN'')"
| "truthy (Str s) = (s \<noteq> [])"
| "truthy (Arr xs) = True"
| "truthy (Obj ps) = True"
| "truthy (Native k) = True"

text \<open>\<^verbatim>\<open>v == null\<close>.\<close>

definition nullish :: "jsval \<Rightarrow> bool" where
  "nullish v = (v = Null \<or> v = Undefined)"

subsection \<open>Strings\<close>

definition isDigit :: "char \<Rightarrow> bool" where
  "isDigit c = (c \<in> set ''0123456789'')"

definition toLowerCase_char :: "char \<Rightarrow> char" where
  "toLowerCase_char c =
     (case map_of (zip ''ABCDEFGHIJKLMNOPQRSTUVWXYZ'' ''abcdefghijklmnopqrstuvwxyz'') c of
        Some l \<Rightarrow> l | None \<Rightarrow> c)"

definition toUpperCase_char :: "char \<Rightarrow> char" where
  "toUpperCase_char c =
     (case map_of (zip ''abcdefghijklmnopqrstuvwxyz'' ''ABCDEFGHIJKLMNOPQRSTUVWXYZ'') c of
        Some u \<Rightarrow> u | None \<Rightarrow> c)"

definition toLowerCase :: "string \<Rightarrow> string" where
  "toLowerCase s = map toLowerCase_char s"

definition toUpperCase :: "string \<Rightarrow> string" where
  "toUpperCase s = map toUpperCase_char s"

text \<open>
  The numbers the code computes are doubles. \<open>round_to_53_bits n\<close> is the natural number
  \<open>n\<close> rounded to 53 binary digits, to the even one of two nearest: \<open>n\<close> itself below
  \<open>2^53\<close>. \<open>to_double n\<close> is the double nearest to \<open>n\<close>: that rounding where it is
  below \<open>2^1024\<close>, and \<^verbatim>\<open>Infinity\<close> from there on.
\<close>

datatype number = Finite nat | Infinity

fun bit_length :: "nat \<Rightarrow> nat" where
  "bit_length n = (if n = 0 then 0 else Suc (bit_length (n div 2)))"

declare bit_length.simps [simp del]

definition round_to_53_bits :: "nat \<Rightarrow> nat" where
  "round_to_53_bits n =
     (if n < 2 ^ 53 then n
      else let e = bit_length n - 53; q = n div 2 ^ e; r = n mod 2 ^ e
           in (if 2 ^ e < 2 * r \<or> (2 * r = 2 ^ e \<and> odd q) then q + 1 else q) * 2 ^ e)"

definition to_double :: "nat \<Rightarrow> number" where
  "to_double n = (if round_to_53_bits n < 2 ^ 1024 then Finite (round_to_53_bits n) else Infinity)"

text \<open>
  \<^verbatim>\<open>parseInt\<close> on a string of decimal digits: the double nearest to the value of the
  digits. (The engines read all the digits and round once; the standard lets an engine
  read the digits behind the twentieth as zeros.)
\<close>

definition digit_value :: "char \<Rightarrow> nat" where
  "digit_value c = of_char c - 48"

definition decimal_value :: "string \<Rightarrow> nat" where
  "decimal_value ds = foldl (\<lambda>n c. 10 * n + digit_value c) 0 ds"

definition parseInt :: "string \<Rightarrow> number" where
  "parseInt ds = to_double (decimal_value ds)"

text \<open>
  The product \<^verbatim>\<open>x * m\<close> of a double \<open>x\<close> and a multiplier \<open>m\<close> of at least 1: the
  double nearest to the exact product.
\<close>

fun times_multiplier :: "number \<Rightarrow> nat \<Rightarrow> number" where
  "times_multiplier (Finite k) m = to_double (k * m)"
| "times_multiplier Infinity m = Infinity"

text \<open>The decimal numeral of a natural number, as \<^verbatim>\<open>String(n)\<close> prints it.\<close>

definition digit_char :: "nat \<Rightarrow> char" where
  "digit_char d = ''0123456789'' ! d"

fun nat_to_string :: "nat \<Rightarrow> string" where
  "nat_to_string n =
     (if n < 10 then [digit_char n] else nat_to_string (n div 10) @ [digit_char (n mod 10)])"

declare nat_to_string.simps [simp del]

text \<open>\<^verbatim>\<open>Array.prototype.join\<close> on strings.\<close>

fun join :: "string \<Rightarrow> string list \<Rightarrow> string" where
  "join sep [] = []"
| "join sep [x] = x"
| "join sep (x # y # ys) = x @ sep @ join sep (y # ys)"

text \<open>
  The conversion to a string that a template literal, \<^verbatim>\<open>String(v)\<close> and
  \<^verbatim>\<open>'text' + v\<close> make; \<open>None\<close> when it throws a \<^verbatim>\<open>TypeError\<close>. An object is
  converted by its \<^verbatim>\<open>toString\<close>: the inherited one gives "[object Object]", and an own
  property of that name is no function, so that no primitive is found and the conversion
  throws (the body \<^verbatim>\<open>{"toString": 1}\<close>). An array joins the conversions of its elements
  by commas, \<^verbatim>\<open>null\<close> and \<^verbatim>\<open>undefined\<close> elements as the empty string, and throws
  when one of them does. The text of a native function is implementation-defined; it is
  given here in the form the engines share.
\<close>

fun toString :: "jsval \<Rightarrow> string option" where
  "toString Undefined = Some ''undefined''"
| "toString Null = Some ''null''"
| "toString (Bool b) = Some (if b then ''true'' else ''false'')"
| "toString (Num s) = Some s"
| "toString (Str s) = Some s"
| "toString (Arr xs) =
     map_option (join '','')
       (those (map (\<lambda>v. if nullish v then Some [] else toString v) xs))"
| "toString (Obj ps) =
     (if ''toString'' \<in> set (map fst ps) then None else Some ''[object Object]'')"
| "toString (Native k) =
     Some (if k = ''__proto__'' then ''[object Object]''
           else ''function '' @ (if k = ''constructor'' then ''Object'' else k)
                  @ ''() { [native code] }'')"

subsection \<open>Property reads\<close>

text \<open>
  An object literal and an object made by \<^verbatim>\<open>JSON.parse\<close> inherit from
  \<^verbatim>\<open>Object.prototype\<close>: a key that is not the object's own is looked up there.
\<close>

definition Object_prototype :: "string list" where
  "Object_prototype =
     [''constructor'', ''hasOwnProperty'', ''isPrototypeOf'', ''propertyIsEnumerable'',
      ''toLocaleString'', ''toString'', ''valueOf'', ''__proto__'', ''__defineGetter__'',
      ''__defineSetter__'', ''__lookupGetter__'', ''__lookupSetter__'']"

definition get_property :: "(string \<times> jsval) list \<Rightarrow> string \<Rightarrow> jsval" where
  "get_property ps k =
     (case map_of ps k of
        Some v \<Rightarrow> v
      | None \<Rightarrow> if k \<in> set Object_prototype then Native k else Undefined)"

text \<open>
  A property read \<^verbatim>\<open>v.k\<close> on a parsed body \<open>v\<close> that is not \<^verbatim>\<open>null\<close>. The widget
  reads \<^verbatim>\<open>success\<close>, \<^verbatim>\<open>message\<close> and \<^verbatim>\<open>status\<close> on whatever was parsed; on a
  string, number, boolean or array these three are \<^verbatim>\<open>undefined\<close>. The configurable key
  is read only after \<^verbatim>\<open>success\<close> was found, hence on an object.
\<close>

fun property :: "jsval \<Rightarrow> string \<Rightarrow> jsval" where
  "property (Obj ps) k = get_property ps k"
| "property v k = Undefined"

text \<open>\<^verbatim>\<open>Object.keys\<close>: the own keys, in the order the object enumerates them.\<close>

definition Object_keys :: "(string \<times> jsval) list \<Rightarrow> string list" where
  "Object_keys ps = map fst ps"

subsection \<open>The size limit\<close>

text \<open>
  \<^verbatim>\<open>sizeRE = /^(\d+)(kb|mb|gb)?$/i\<close>. \<open>sizeRE_exec s\<close> is \<open>None\<close> when the string does not
  match, and else the two groups; the second group is \<open>None\<close> when it did not take part.
  The digits are matched greedily and what follows them must be the whole rest.
\<close>

definition sizeRE_exec :: "string \<Rightarrow> (string \<times> string option) option" where
  "sizeRE_exec s =
     (let ds = takeWhile isDigit s; rest = dropWhile isDigit s
      in if ds = [] then None
         else if rest = [] then Some (ds, None)
         else if toLowerCase rest \<in> set [''kb'', ''mb'', ''gb''] then Some (ds, Some rest)
         else None)"

definition sizeMultiplier :: "(string \<times> nat) list" where
  "sizeMultiplier = [(''unit'', 1), (''kb'', 1000), (''mb'', 1000000), (''gb'', 1000000000)]"

definition MAX_SAFE_INTEGER :: nat where
  "MAX_SAFE_INTEGER = 9007199254740991"

text \<open>
  \<^verbatim>\<open>beforeGetMaxSize(maxSize)\<close>, the getter hook of the \<^verbatim>\<open>maxSize\<close> config. The result
  \<open>None\<close> is \<^verbatim>\<open>undefined\<close>: the function falls off its end when the pattern does not match.
  \<^verbatim>\<open>sizeRE.exec\<close> converts its argument to a string, and \<^verbatim>\<open>parseInt\<close> and the product
  are doubles. (The config is declared \<^verbatim>\<open>{String|Number}\<close>; a value of another type that
  does not convert to a string is given \<open>None\<close> here.)
\<close>

definition beforeGetMaxSize :: "jsval \<Rightarrow> number option" where
  "beforeGetMaxSize maxSize =
     (if nullish maxSize then Some (Finite MAX_SAFE_INTEGER)
      else case toString maxSize of
             None \<Rightarrow> None
           | Some text \<Rightarrow>
               (case sizeRE_exec text of
                  None \<Rightarrow> None
                | Some (digits, unit) \<Rightarrow>
                    (case map_of sizeMultiplier
                            (toLowerCase (case unit of None \<Rightarrow> ''unit'' | Some u \<Rightarrow> u)) of
                       None \<Rightarrow> None
                     | Some multiplier \<Rightarrow>
                         Some (times_multiplier (parseInt digits) multiplier))))"

subsection \<open>Formatting a byte count\<close>

text \<open>
  \<^verbatim>\<open>Math.floor(Math.log(bytes) / Math.log(1024))\<close> for a byte count of at least 1,
  computed on the exact value: the number of times 1024 divides into it. (The theorem
  \<open>log1024_floor_eq\<close> below relates it to the real logarithm.)
\<close>

fun log1024_floor :: "nat \<Rightarrow> nat" where
  "log1024_floor b = (if b < 1024 then 0 else Suc (log1024_floor (b div 1024)))"

declare log1024_floor.simps [simp del]

definition sizes :: "string list" where
  "sizes = [''Bytes'', ''KB'', ''MB'', ''GB'', ''TB'']"

text \<open>
  \<^verbatim>\<open>x.toFixed(f)\<close> for the quotient \<open>x = num / den\<close> of two naturals (a byte count
  divided by a power of 1024 is exact in a double): \<open>n\<close> is the integer nearest to
  \<open>x * 10^f\<close>, the larger one of two; it is printed with \<open>f\<close> digits after the point.
\<close>

definition toFixed :: "nat \<Rightarrow> nat \<Rightarrow> nat \<Rightarrow> string" where
  "toFixed num den f =
     (let n = (2 * num * 10 ^ f + den) div (2 * den)
      in if f = 0 then nat_to_string n
         else let frac = nat_to_string (n mod 10 ^ f)
              in nat_to_string (n div 10 ^ f) @ ''.'' @ replicate (f - length frac) CHR ''0'' @ frac)"

text \<open>
  \<^verbatim>\<open>formatSize(bytes, separator = '', postFix = '')\<close>. The byte count is \<open>None\<close> when the
  caller passes \<^verbatim>\<open>undefined\<close> (\<^verbatim>\<open>uploadSize\<close> before any progress event).
\<close>

definition formatSize :: "nat option \<Rightarrow> string \<Rightarrow> string \<Rightarrow> string" where
  "formatSize bytes separator postFix =
     (case bytes of
        None \<Rightarrow> ''n/a''
      | Some b \<Rightarrow>
          if b \<noteq> 0 then
            let i = min (log1024_floor b) (length sizes - 1)
            in toFixed b (1024 ^ i) (if i \<noteq> 0 then 1 else 0) @ separator @ sizes ! i @ postFix
          else ''n/a'')"

subsection \<open>The widget\<close>

record js_file =
  file_name :: string
  file_size :: nat

text \<open>
  The caption under the file name (\<^verbatim>\<open>vdom.cn[1].cn[1].innerHTML\<close>) is kept as the
  template that was written and the values put into it; a progress is kept as its two
  operands \<^verbatim>\<open>loaded\<close> and \<^verbatim>\<open>total\<close>.
\<close>

datatype caption =
    Uploading nat nat
  | UploadFailed "(nat \<times> nat) option"
  | Scanning string
  | MalwareFound "string option"
  | FileSize "string option"
  | Uploaded "string option"

text \<open>
  The configs of the class, the fields its methods assign, and the nodes of \<^verbatim>\<open>vdom\<close>
  they write. \<open>maxSize_config\<close> is the stored config \<^verbatim>\<open>_maxSize\<close>; the code reads it
  through \<^verbatim>\<open>beforeGetMaxSize\<close>. \<open>xhr\<close> is the transfer handle, with the file it
  carries. \<open>error\<close> is the text last assigned to the accessor \<^verbatim>\<open>error\<close>, which has a
  setter only; what the setter does with it is in \<open>error_cn\<close> (the children of the
  message node \<^verbatim>\<open>vdom.cn[4]\<close>) and \<open>cls\<close>. \<open>input_value\<close> is the \<^verbatim>\<open>value\<close> of
  the file input node \<^verbatim>\<open>vdom.cn[3]\<close>, \<open>None\<close> while the node has none.
\<close>

record widget =
  uploadUrl :: jsval
  documentIdParameter :: string
  downloadUrl :: jsval
  documentStatusUrl :: jsval
  documentDeleteUrl :: jsval
  state :: jsval
  types :: "(string \<times> jsval) list option"
  maxSize_config :: jsval
  cls :: "string list"
  xhr :: "js_file option"
  documentId :: jsval
  fileSize :: "string option"
  uploadSize :: "nat option"
  progress :: "(nat \<times> nat) option"
  error :: jsval
  anchor_tag :: "string option"
  anchor_href :: "string option"
  anchor_innerHTML :: "string option"
  status_innerHTML :: "caption option"
  input_value :: "string option"
  error_cn :: "jsval option"
  style_upload_progress :: "(nat \<times> nat) option"

text \<open>The values of \<^verbatim>\<open>static config\<close>, with every field not yet assigned.\<close>

definition defaults :: widget where
  "defaults =
     \<lparr>uploadUrl = Null, documentIdParameter = ''documentId'', downloadUrl = Null,
      documentStatusUrl = Null, documentDeleteUrl = Null, state = Str ''ready'',
      types = None, maxSize_config = Null, cls = [], xhr = None, documentId = Undefined,
      fileSize = None, uploadSize = None, progress = None, error = Undefined,
      anchor_tag = None, anchor_href = None, anchor_innerHTML = None,
      status_innerHTML = None, input_value = None, error_cn = None,
      style_upload_progress = None\<rparr>"

text \<open>
  What a handler asks of the browser. A timer carries the task it will run, a fetch the
  method that awaits it. \<open>Rejected e\<close> is the promise of an \<^verbatim>\<open>async\<close> method that
  ended with the exception \<open>e\<close> before its first \<^verbatim>\<open>await\<close>: the caller does not see the
  exception, and nobody handles the promise.
\<close>

datatype js_error = SyntaxError | TypeError

datatype task = ClearResume | UploadResume js_file | CheckDocumentStatus

datatype request = StatusRequest | DeleteRequest

datatype effect =
    SetTimeout task nat
  | Fetch request string
  | XhrSend jsval js_file
  | XhrAbort
  | Rejected js_error

text \<open>
  The body of a response as \<^verbatim>\<open>JSON.parse\<close> (or \<^verbatim>\<open>response.json()\<close>) sees it:
  text that is not JSON, for which it throws a \<^verbatim>\<open>SyntaxError\<close>, or the parsed value.
\<close>

datatype body = Malformed | Json jsval

text \<open>
  A handler that can throw returns \<open>Inl\<close> with the error and the widget as the handler
  left it, or \<open>Inr\<close> with the widget and the effects. (For the part of an \<^verbatim>\<open>async\<close>
  method after its \<^verbatim>\<open>await\<close>, \<open>Inl\<close> is the rejection of its promise.)
\<close>

type_synonym outcome = "js_error \<times> widget + widget \<times> effect list"

text \<open>The widget as the handler leaves it, whether it returns or throws.\<close>

fun widget_of :: "outcome \<Rightarrow> widget" where
  "widget_of (Inl (e, w)) = w"
| "widget_of (Inr (w, effects)) = w"

text \<open>
  Modelled from the spec: \<^verbatim>\<open>NeoArray\<close> (util/Array.mjs) is not among the sources.
  \<^verbatim>\<open>add\<close> puts an item into the array unless it is there, \<^verbatim>\<open>remove\<close> takes it out.
  The classes of the widget change when the array is written back (\<^verbatim>\<open>me.cls = cls\<close>).
\<close>

definition NeoArray_add :: "string list \<Rightarrow> string \<Rightarrow> string list" where
  "NeoArray_add arr item = (if item \<in> set arr then arr else arr @ [item])"

definition NeoArray_remove :: "string list \<Rightarrow> string \<Rightarrow> string list" where
  "NeoArray_remove arr item = remove1 item arr"

text \<open>\<^verbatim>\<open>set error(text)\<close>.\<close>

definition set_error :: "jsval \<Rightarrow> widget \<Rightarrow> widget" where
  "set_error text w =
     (if truthy text
      then w\<lparr>error := text, error_cn := Some text, cls := NeoArray_add (cls w) ''neo-invalid''\<rparr>
      else w\<lparr>error := text, cls := NeoArray_remove (cls w) ''neo-invalid''\<rparr>)"

text \<open>
  The template \<^verbatim>\<open>`${url}?${me.documentIdParameter}=${me.documentId}`\<close> of the status
  request, the delete request and the download link; \<open>None\<close> when a conversion throws.
\<close>

definition url_with_id :: "jsval \<Rightarrow> widget \<Rightarrow> string option" where
  "url_with_id url w =
     (case toString url of
        None \<Rightarrow> None
      | Some u \<Rightarrow>
          (case toString (documentId w) of
             None \<Rightarrow> None
           | Some i \<Rightarrow> Some (u @ ''?'' @ documentIdParameter w @ ''='' @ i)))"

text \<open>\<^verbatim>\<open>'neo-file-upload-state-' + value\<close>; \<open>None\<close> when the conversion throws.\<close>

definition state_class :: "jsval \<Rightarrow> string option" where
  "state_class value = map_option (\<lambda>text. ''neo-file-upload-state-'' @ text) (toString value)"

text \<open>
  \<^verbatim>\<open>afterSetState(value, oldValue)\<close>. The hook throws a \<^verbatim>\<open>TypeError\<close> where a
  value does not convert to a string: in the download link (after the tag of the anchor
  was set), in the class of the old state, or in the class of the new state.
  \<open>afterSetState_switch\<close> is the \<^verbatim>\<open>switch\<close> of the hook, up to the end of the
  \<^verbatim>\<open>switch\<close> or to where it throws; \<open>afterSetState\<close> is the widget as the hook
  leaves it, also when it throws, and \<open>afterSetState_throws\<close> tells when it throws.
\<close>

definition afterSetState_switch :: "jsval \<Rightarrow> widget \<Rightarrow> widget" where
  "afterSetState_switch value w =
     (if value = Str ''ready'' then w\<lparr>anchor_tag := Some ''div'', anchor_href := Some []\<rparr>
      else if value = Str ''upload-failed''
        then w\<lparr>status_innerHTML := Some (UploadFailed (progress w))\<rparr>
      else if value = Str ''processing''
        then w\<lparr>status_innerHTML := Some (Scanning (formatSize (uploadSize w) [] []))\<rparr>
      else if value = Str ''scan-failed''
        then set_error (Str ''Please check the file and try again'')
               (w\<lparr>status_innerHTML := Some (MalwareFound (fileSize w))\<rparr>)
      else if value = Str ''downloadable''
        then (case url_with_id (downloadUrl w) w of
                None \<Rightarrow> w\<lparr>anchor_tag := Some ''a''\<rparr>
              | Some href \<Rightarrow>
                  w\<lparr>anchor_tag := Some ''a'', anchor_href := Some href,
                    status_innerHTML := Some (FileSize (fileSize w))\<rparr>)
      else if value = Str ''not-downloadable''
        then w\<lparr>status_innerHTML := Some (Uploaded (fileSize w))\<rparr>
      else w)"

definition afterSetState_throws :: "jsval \<Rightarrow> jsval \<Rightarrow> widget \<Rightarrow> bool" where
  "afterSetState_throws value oldValue w =
     ((value = Str ''downloadable'' \<and> url_with_id (downloadUrl w) w = None)
      \<or> state_class oldValue = None \<or> state_class value = None)"

definition afterSetState :: "jsval \<Rightarrow> jsval \<Rightarrow> widget \<Rightarrow> widget" where
  "afterSetState value oldValue w =
     (if value = Str ''downloadable'' \<and> url_with_id (downloadUrl w) w = None
      then afterSetState_switch value w
      else (case state_class oldValue of
              None \<Rightarrow> afterSetState_switch value w
            | Some old \<Rightarrow>
                (case state_class value of
                   None \<Rightarrow> afterSetState_switch value w
                 | Some new \<Rightarrow>
                     (afterSetState_switch value w)
                       \<lparr>cls := NeoArray_add
                                (NeoArray_remove (cls (afterSetState_switch value w)) old) new\<rparr>)))"

text \<open>
  Modelled from the spec: the reactive config system of the framework (the setter that
  \<^verbatim>\<open>state_\<close> generates) is not among the sources. An assignment \<^verbatim>\<open>me.state = value\<close>
  stores the value and, on a transition to another value, runs the hook
  \<^verbatim>\<open>afterSetState\<close> with the new and the old value. \<open>set_state\<close> is the widget as
  the assignment leaves it, and \<open>set_state_throws\<close> tells when the hook throws out of it;
  \<open>assign_state\<close> is the assignment as a step of a handler that ends there when it throws.
\<close>

definition set_state :: "jsval \<Rightarrow> widget \<Rightarrow> widget" where
  "set_state value w =
     (if value = state w then w else afterSetState value (state w) (w\<lparr>state := value\<rparr>))"

definition set_state_throws :: "jsval \<Rightarrow> widget \<Rightarrow> bool" where
  "set_state_throws value w =
     (value \<noteq> state w \<and> afterSetState_throws value (state w) (w\<lparr>state := value\<rparr>))"

definition assign_state :: "jsval \<Rightarrow> widget \<Rightarrow> js_error \<times> widget + widget" where
  "assign_state value w =
     (if set_state_throws value w then Inl (TypeError, set_state value w)
      else Inr (set_state value w))"

text \<open>
  The handlers \<open>clear\<close>, \<open>upload\<close>, \<open>upload_resume\<close>, \<open>onUploadError\<close>,
  \<open>onActionButtonClick\<close> and \<open>deleteDocument_response\<close> below assign a state name of the
  widget's own. They are written for a widget whose state converts to a string, as every
  state name does: the hook does not throw in them then, and \<open>set_state\<close> is the whole
  assignment.
\<close>

text \<open>
  \<^verbatim>\<open>clear()\<close> up to its \<^verbatim>\<open>await\<close>; what follows the timer only moves the focus.
\<close>

definition clear :: "widget \<Rightarrow> widget \<times> effect list" where
  "clear w =
     (set_error (Str []) (set_state (Str ''ready'') (w\<lparr>input_value := Some []\<rparr>)),
      [SetTimeout ClearResume 100])"

text \<open>
  \<^verbatim>\<open>upload(file)\<close> up to its \<^verbatim>\<open>await\<close>, and \<open>upload_resume\<close> from there on: the
  listeners are registered and the request is sent.
\<close>

definition upload :: "js_file \<Rightarrow> widget \<Rightarrow> widget \<times> effect list" where
  "upload f w =
     (set_state (Str ''starting'') (w\<lparr>xhr := Some f\<rparr>), [SetTimeout (UploadResume f) 100])"

definition upload_resume :: "js_file \<Rightarrow> widget \<Rightarrow> widget \<times> effect list" where
  "upload_resume f w =
     (set_state (Str ''uploading'') (w\<lparr>anchor_innerHTML := Some (file_name f)\<rparr>),
      [XhrSend (uploadUrl w) f])"

text \<open>
  The file type: \<^verbatim>\<open>file.name.slice(pointPos + 1)\<close> behind the last point, and the empty
  string when the name has no point.
\<close>

definition file_type :: "string \<Rightarrow> string" where
  "file_type name =
     (if CHR ''.'' \<in> set name then rev (takeWhile (\<lambda>c. c \<noteq> CHR ''.'') (rev name)) else [])"

text \<open>
  \<^verbatim>\<open>file.size > me.maxSize\<close>: a comparison with \<^verbatim>\<open>undefined\<close> is false, and no
  size is greater than \<^verbatim>\<open>Infinity\<close>.
\<close>

definition exceeds :: "nat \<Rightarrow> number option \<Rightarrow> bool" where
  "exceeds n maxSize =
     (case maxSize of None \<Rightarrow> False | Some Infinity \<Rightarrow> False | Some (Finite m) \<Rightarrow> m < n)"

text \<open>
  \<^verbatim>\<open>onInputValueChange({ files })\<close>. The test \<^verbatim>\<open>me.types && !types[type]\<close> is the
  first branch; \<open>types\<close> is \<open>None\<close> for \<^verbatim>\<open>null\<close>. (Where the size is greater than
  the maximum, the config has been converted to a string by the getter already:
  \<^verbatim>\<open>String(me._maxSize)\<close> gives its text.)
\<close>

definition onInputValueChange :: "js_file list \<Rightarrow> widget \<Rightarrow> widget \<times> effect list" where
  "onInputValueChange files w =
     (case files of
        [] \<Rightarrow> (set_state (Str ''ready'') w, [])
      | f # _ \<Rightarrow>
          if (case types w of
                None \<Rightarrow> False
              | Some ts \<Rightarrow> \<not> truthy (get_property ts (file_type (file_name f))))
          then (set_error
                  (Str (''Please use these file types: .''
                          @ join '' .'' (Object_keys (case types w of None \<Rightarrow> [] | Some ts \<Rightarrow> ts))))
                  w,
                [])
          else if exceeds (file_size f) (beforeGetMaxSize (maxSize_config w))
          then (set_error
                  (Str (''File size exceeds ''
                          @ toUpperCase (case toString (maxSize_config w) of
                                           None \<Rightarrow> [] | Some text \<Rightarrow> text)))
                  w,
                [])
          else upload f
                 (set_error (Str [])
                    (w\<lparr>fileSize := Some (formatSize (Some (file_size f)) [] [])\<rparr>)))"

definition onUploadProgress :: "nat \<Rightarrow> nat \<Rightarrow> widget \<Rightarrow> widget" where
  "onUploadProgress loaded total_bytes w =
     w\<lparr>progress := Some (loaded, total_bytes),
       style_upload_progress := Some (loaded, total_bytes),
       status_innerHTML := Some (Uploading loaded total_bytes), uploadSize := Some loaded\<rparr>"

definition onUploadAbort :: "widget \<Rightarrow> widget \<times> effect list" where
  "onUploadAbort w = clear (w\<lparr>xhr := None\<rparr>)"

text \<open>\<^verbatim>\<open>onUploadError(e)\<close>, with \<^verbatim>\<open>e.type\<close>.\<close>

definition onUploadError :: "string \<Rightarrow> widget \<Rightarrow> widget" where
  "onUploadError e_type w =
     set_error (Str e_type) (set_state (Str ''upload-failed'') (w\<lparr>xhr := None\<rparr>))"

text \<open>\<^verbatim>\<open>String(status).slice(0, 1) === '2'\<close> on the status of a response.\<close>

definition status_2xx :: "nat \<Rightarrow> bool" where
  "status_2xx status = (take 1 (nat_to_string status) = ''2'')"

text \<open>
  \<^verbatim>\<open>checkDocumentStatus()\<close> up to its \<^verbatim>\<open>await fetch(...)\<close>, and
  \<open>checkDocumentStatus_response\<close> from there on, given the status, the status text and
  the body of the response. (The second \<^verbatim>\<open>await\<close>, on \<^verbatim>\<open>json()\<close>, is not cut: the
  method neither reads nor writes the widget between the two.)
\<close>

definition checkDocumentStatus :: "widget \<Rightarrow> widget \<times> effect list" where
  "checkDocumentStatus w =
     (if state w = Str ''processing''
      then (case url_with_id (documentStatusUrl w) w of
              None \<Rightarrow> (w, [Rejected TypeError])
            | Some url \<Rightarrow> (w, [Fetch StatusRequest url]))
      else (w, []))"

definition checkDocumentStatus_response :: "nat \<Rightarrow> string \<Rightarrow> body \<Rightarrow> widget \<Rightarrow> outcome" where
  "checkDocumentStatus_response status statusText b w =
     (if status_2xx status then
        (case b of
           Malformed \<Rightarrow> Inl (SyntaxError, w)
         | Json v \<Rightarrow>
             if nullish v then Inl (TypeError, w)
             else if property v ''status'' = Str ''scanning''
               then Inr (w, [SetTimeout CheckDocumentStatus 2000])
               else (case assign_state (property v ''status'') w of
                       Inl thrown \<Rightarrow> Inl thrown
                     | Inr w1 \<Rightarrow> Inr (w1, [])))
      else Inr (set_error (Str (''Document status service error: '' @ statusText)) w, []))"

text \<open>\<^verbatim>\<open>onUploadDone({ loaded, target : xhr })\<close>, on the body \<^verbatim>\<open>xhr.response\<close>.\<close>

definition onUploadDone :: "nat \<Rightarrow> body \<Rightarrow> widget \<Rightarrow> outcome" where
  "onUploadDone loaded b w =
     (let me = w\<lparr>xhr := None\<rparr>
      in if loaded \<noteq> 0 then
           (case b of
              Malformed \<Rightarrow> Inl (SyntaxError, me)
            | Json response \<Rightarrow>
                if nullish response then Inl (TypeError, me)
                else if truthy (property response ''success'') then
                  (let me1 = me\<lparr>documentId := property response (documentIdParameter me)\<rparr>
                   in if truthy (documentStatusUrl me1)
                      then (case assign_state (Str ''processing'') me1 of
                              Inl thrown \<Rightarrow> Inl thrown
                            | Inr me2 \<Rightarrow> Inr (checkDocumentStatus me2))
                      else (case assign_state (Str ''downloadable'') me1 of
                              Inl thrown \<Rightarrow> Inl thrown
                            | Inr me2 \<Rightarrow> Inr (me2, [])))
                else (case assign_state (Str ''upload-failed'')
                             (set_error (property response ''message'') me) of
                        Inl thrown \<Rightarrow> Inl thrown
                      | Inr me2 \<Rightarrow> Inr (me2, [])))
         else Inr (me, []))"

text \<open>
  \<^verbatim>\<open>deleteDocument()\<close> up to its \<^verbatim>\<open>await fetch(...)\<close>, and
  \<open>deleteDocument_response\<close> from there on.
\<close>

definition deleteDocument :: "widget \<Rightarrow> widget \<times> effect list" where
  "deleteDocument w =
     (case url_with_id (documentDeleteUrl w) w of
        None \<Rightarrow> (w, [Rejected TypeError])
      | Some url \<Rightarrow> (w, [Fetch DeleteRequest url]))"

definition deleteDocument_response :: "nat \<Rightarrow> string \<Rightarrow> widget \<Rightarrow> widget \<times> effect list" where
  "deleteDocument_response status statusText w =
     (if status_2xx status
      then (set_state (Str ''ready'') (fst (clear w)), snd (clear w))
      else (set_error (Str (''Document delete service error: '' @ statusText)) w, []))"

text \<open>\<^verbatim>\<open>abortUpload()\<close>: \<^verbatim>\<open>this.xhr?.abort()\<close>.\<close>

definition abortUpload :: "widget \<Rightarrow> widget \<times> effect list" where
  "abortUpload w = (case xhr w of None \<Rightarrow> (w, []) | Some f \<Rightarrow> (w, [XhrAbort]))"

definition onActionButtonClick :: "widget \<Rightarrow> widget \<times> effect list" where
  "onActionButtonClick w =
     (if state w = Str ''uploading'' then abortUpload w
      else if state w = Str ''upload-failed'' \<or> state w = Str ''scan-failed''
        then (set_state (Str ''ready'') (fst (clear w)), snd (clear w))
      else if state w = Str ''processing'' \<or> state w = Str ''downloadable''
              \<or> state w = Str ''not-downloadable''
        then deleteDocument w
      else (w, []))"

subsection \<open>The event loop\<close>

text \<open>
  The page holds the widget and what is pending in the browser for it: the timers set and
  not yet fired, the fetches sent and not yet answered, and the number of transfers sent
  and not yet ended. An event is one callback the browser runs to its end (or to its next
  \<^verbatim>\<open>await\<close>): a DOM event, a timer, an event of a transfer, or the answer to a fetch.
\<close>

record page =
  wdg :: widget
  timers :: "task list"
  fetches :: "request list"
  transfers :: nat

datatype event =
    Input "js_file list"
  | Click
  | Timeout task
  | UploadProgress nat nat
  | UploadAbort
  | UploadError string
  | LoadEnd nat body
  | Response request nat string body

fun post :: "effect \<Rightarrow> page \<Rightarrow> page" where
  "post (SetTimeout t ms) p = p\<lparr>timers := timers p @ [t]\<rparr>"
| "post (Fetch r url) p = p\<lparr>fetches := fetches p @ [r]\<rparr>"
| "post (XhrSend url f) p = p\<lparr>transfers := Suc (transfers p)\<rparr>"
| "post XhrAbort p = p"
| "post (Rejected e) p = p"

definition settle :: "widget \<times> effect list \<Rightarrow> page \<Rightarrow> page" where
  "settle r p = fold post (snd r) (p\<lparr>wdg := fst r\<rparr>)"

text \<open>
  An exception that leaves a callback is reported by the browser and the loop goes on,
  with the widget as the callback left it.
\<close>

definition settle_outcome :: "outcome \<Rightarrow> page \<Rightarrow> page" where
  "settle_outcome r p = (case r of Inl (e, w) \<Rightarrow> p\<lparr>wdg := w\<rparr> | Inr r' \<Rightarrow> settle r' p)"

text \<open>
  One event; \<open>None\<close> when the browser cannot deliver it (a timer that is not set, an
  answer to a fetch that was not sent, an event of a transfer when none is under way).
\<close>

fun step :: "event \<Rightarrow> page \<Rightarrow> page option" where
  "step (Input files) p = Some (settle (onInputValueChange files (wdg p)) p)"
| "step Click p = Some (settle (onActionButtonClick (wdg p)) p)"
| "step (Timeout t) p =
     (if t \<in> set (timers p) then
        (let p1 = p\<lparr>timers := remove1 t (timers p)\<rparr>
         in Some (case t of
                    ClearResume \<Rightarrow> p1
                  | UploadResume f \<Rightarrow> settle (upload_resume f (wdg p1)) p1
                  | CheckDocumentStatus \<Rightarrow> settle (checkDocumentStatus (wdg p1)) p1))
      else None)"
| "step (UploadProgress loaded total_bytes) p =
     (if 0 < transfers p then Some (p\<lparr>wdg := onUploadProgress loaded total_bytes (wdg p)\<rparr>)
      else None)"
| "step UploadAbort p =
     (if 0 < transfers p then Some (settle (onUploadAbort (wdg p)) p) else None)"
| "step (UploadError e_type) p =
     (if 0 < transfers p then Some (p\<lparr>wdg := onUploadError e_type (wdg p)\<rparr>) else None)"
| "step (LoadEnd loaded b) p =
     (if 0 < transfers p
      then Some (settle_outcome (onUploadDone loaded b (wdg p)) (p\<lparr>transfers := transfers p - 1\<rparr>))
      else None)"
| "step (Response StatusRequest status statusText b) p =
     (if StatusRequest \<in> set (fetches p)
      then Some (settle_outcome (checkDocumentStatus_response status statusText b (wdg p))
                   (p\<lparr>fetches := remove1 StatusRequest (fetches p)\<rparr>))
      else None)"
| "step (Response DeleteRequest status statusText b) p =
     (if DeleteRequest \<in> set (fetches p)
      then Some (settle (deleteDocument_response status statusText (wdg p))
                   (p\<lparr>fetches := remove1 DeleteRequest (fetches p)\<rparr>))
      else None)"

fun run :: "event list \<Rightarrow> page \<Rightarrow> page option" where
  "run [] p = Some p"
| "run (e # es) p = (case step e p of None \<Rightarrow> None | Some p' \<Rightarrow> run es p')"

subsection \<open>Example configurations and runs\<close>


definition pdf_widget :: widget where
  "pdf_widget = defaults\<lparr>types := Some [(''pdf'', Bool True)], maxSize_config := Str ''5kb''\<rparr>"

definition processing_widget :: widget where
  "processing_widget =
     defaults\<lparr>documentStatusUrl := Str ''/status'', documentDeleteUrl := Str ''/delete'',
       state := Str ''processing'', cls := [''neo-file-upload-state-processing''],
       documentId := Num ''7''\<rparr>"

definition upload_page :: page where
  "upload_page =
     \<lparr>wdg = defaults\<lparr>uploadUrl := Str ''/upload'', documentStatusUrl := Str ''/status'',
              documentDeleteUrl := Str ''/delete''\<rparr>,
      timers = [], fetches = [], transfers = 0\<rparr>"

definition pdf_file :: js_file where
  "pdf_file = \<lparr>file_name = ''a.pdf'', file_size = 1200\<rparr>"

definition accepted_body :: body where
  "accepted_body = Json (Obj [(''success'', Bool True), (''documentId'', Num ''7'')])"

text \<open>
  An accepted upload whose document id is the object \<^verbatim>\<open>{"toString": 1}\<close>, which does
  not convert to a string.
\<close>

definition unconvertible_id_body :: body where
  "unconvertible_id_body =
     Json (Obj [(''success'', Bool True), (''documentId'', Obj [(''toString'', Num ''1'')])])"

definition observe :: "page \<Rightarrow> jsval \<times> task list \<times> request list" where
  "observe p = (state (wdg p), timers p, fetches p)"

definition scanning_run :: "event list" where
  "scanning_run =
     [Input [pdf_file], Timeout (UploadResume pdf_file), UploadProgress 1200 1200,
      LoadEnd 1200 accepted_body,
      Response StatusRequest 200 ''OK'' (Json (Obj [(''status'', Str ''scanning'')]))]"

definition delete_during_poll :: "event list" where
  "delete_during_poll =
     [Click, Timeout CheckDocumentStatus, Response DeleteRequest 200 ''OK'' (Json (Obj []))]"

definition late_answer :: event where
  "late_answer = Response StatusRequest 200 ''OK'' (Json (Obj [(''status'', Str ''downloadable'')]))"
section \<open>Properties\<close>

subsection \<open>Parsing the size limit\<close>

lemma isDigit_not_unit_letter:
  assumes "isDigit c"
  shows "toLowerCase_char c \<notin> set ''kmg''"
proof -
  from assms consider "c = CHR ''0''" | "c = CHR ''1''" | "c = CHR ''2''" | "c = CHR ''3''"
    | "c = CHR ''4''" | "c = CHR ''5''" | "c = CHR ''6''" | "c = CHR ''7''" | "c = CHR ''8''"
    | "c = CHR ''9''"
    unfolding isDigit_def by auto
  then show ?thesis
    by cases (simp_all add: toLowerCase_char_def)
qed

lemma takeWhile_digits_append:
  assumes "\<forall>c\<in>set ds. isDigit c" and "u = [] \<or> \<not> isDigit (hd u)"
  shows "takeWhile isDigit (ds @ u) = ds \<and> dropWhile isDigit (ds @ u) = u"
  using assms by (induction ds) (auto simp: takeWhile_eq_Nil_iff dropWhile_eq_self_iff)

lemma unit_not_digit:
  assumes "toLowerCase u \<in> set [''kb'', ''mb'', ''gb'']"
  shows "u \<noteq> [] \<and> \<not> isDigit (hd u)"
proof -
  from assms obtain a b where u: "u = [a, b]" and "toLowerCase_char a \<in> set ''kmg''"
    by (cases u; cases "tl u"; cases "tl (tl u)") (auto simp: toLowerCase_def)
  then show ?thesis
    using isDigit_not_unit_letter [of a] by auto
qed

lemma sizeRE_exec_digits:
  assumes "ds \<noteq> []" and "\<forall>c\<in>set ds. isDigit c"
  shows "sizeRE_exec ds = Some (ds, None)"
proof -
  have split: "takeWhile isDigit ds = ds" "dropWhile isDigit ds = []"
    using takeWhile_digits_append [OF assms(2), of "[]"] by simp_all
  show ?thesis
    unfolding sizeRE_exec_def Let_def split using assms(1) by simp
qed

lemma sizeRE_exec_unit:
  assumes "ds \<noteq> []" and "\<forall>c\<in>set ds. isDigit c"
    and "toLowerCase u \<in> set [''kb'', ''mb'', ''gb'']"
  shows "sizeRE_exec (ds @ u) = Some (ds, Some u)"
proof -
  have u: "u \<noteq> []" "\<not> isDigit (hd u)"
    using unit_not_digit [OF assms(3)] by simp_all
  then have split: "takeWhile isDigit (ds @ u) = ds" "dropWhile isDigit (ds @ u) = u"
    using takeWhile_digits_append [OF assms(2), of u] by simp_all
  show ?thesis
    unfolding sizeRE_exec_def Let_def split using assms(1,3) u by simp
qed

lemma round_to_53_bits_exact: "n < 2 ^ 53 \<Longrightarrow> round_to_53_bits n = n"
  by (simp add: round_to_53_bits_def)

lemma to_double_exact: "n \<le> 9007199254740991 \<Longrightarrow> to_double n = Finite n"
proof -
  assume "n \<le> 9007199254740991"
  then have small: "n < 2 ^ 53"
    by simp
  have "(2::nat) ^ 53 \<le> 2 ^ 1024"
    by (rule power_increasing) simp_all
  with small have "n < 2 ^ 1024"
    by (rule less_le_trans)
  with small show ?thesis
    unfolding to_double_def round_to_53_bits_exact [OF small] by simp
qed

lemma parseInt_exact:
  "decimal_value ds \<le> 9007199254740991 \<Longrightarrow> parseInt ds = Finite (decimal_value ds)"
  by (simp add: parseInt_def to_double_exact)

lemma product_exact:
  assumes "decimal_value ds * m \<le> 9007199254740991" and "0 < m"
  shows "times_multiplier (parseInt ds) m = Finite (decimal_value ds * m)"
proof -
  have "decimal_value ds \<le> decimal_value ds * m"
    using assms(2) by (cases m) simp_all
  then have "decimal_value ds \<le> 9007199254740991"
    using assms(1) by (rule le_trans)
  then have "parseInt ds = Finite (decimal_value ds)"
    by (rule parseInt_exact)
  then show ?thesis
    using to_double_exact [OF assms(1)] by simp
qed

lemma toString_Str_maxSize:
  "beforeGetMaxSize (Str s) =
     (case sizeRE_exec s of
        None \<Rightarrow> None
      | Some (digits, unit) \<Rightarrow>
          (case map_of sizeMultiplier
                  (toLowerCase (case unit of None \<Rightarrow> ''unit'' | Some u \<Rightarrow> u)) of
             None \<Rightarrow> None
           | Some multiplier \<Rightarrow> Some (times_multiplier (parseInt digits) multiplier)))"
  by (simp add: beforeGetMaxSize_def nullish_def)

lemma maxSize_of_digits:
  assumes "ds \<noteq> []" and "\<forall>c\<in>set ds. isDigit c"
  shows "beforeGetMaxSize (Str ds) = Some (times_multiplier (parseInt ds) 1)"
  using sizeRE_exec_digits [OF assms]
  by (simp add: toString_Str_maxSize sizeMultiplier_def toLowerCase_def toLowerCase_char_def)

lemma maxSize_of_unit:
  assumes "ds \<noteq> []" and "\<forall>c\<in>set ds. isDigit c"
    and "toLowerCase u \<in> set [''kb'', ''mb'', ''gb'']"
  shows "beforeGetMaxSize (Str (ds @ u)) =
    (case map_of sizeMultiplier (toLowerCase u) of
       None \<Rightarrow> None | Some m \<Rightarrow> Some (times_multiplier (parseInt ds) m))"
  using sizeRE_exec_unit [OF assms] by (simp add: toString_Str_maxSize)

lemma decimal_values:
  "decimal_value ''100'' = 100" "decimal_value ''5'' = 5" "decimal_value ''10'' = 10"
  "decimal_value ''2'' = 2"
  by (simp_all add: decimal_value_def digit_value_def)

lemma limit_5kb: "beforeGetMaxSize (Str ''5kb'') = Some (Finite 5000)"
proof -
  have "beforeGetMaxSize (Str (''5'' @ ''kb'')) =
      (case map_of sizeMultiplier (toLowerCase ''kb'') of
         None \<Rightarrow> None | Some m \<Rightarrow> Some (times_multiplier (parseInt ''5'') m))"
    by (rule maxSize_of_unit) (simp_all add: isDigit_def toLowerCase_def toLowerCase_char_def)
  then show ?thesis
    using product_exact [of "''5''" 1000]
    by (simp add: sizeMultiplier_def toLowerCase_def toLowerCase_char_def decimal_values)
qed

text \<open>
  Above \<open>2^53\<close> the results are the doubles of the code, not the exact values:
  \<^verbatim>\<open>parseInt('9007199254740993')\<close> is 9007199254740992, and the limit "4611686019gb"
  is 4611686019000000512.
\<close>

lemma bit_length_bounds: "0 < n \<Longrightarrow> 2 ^ (bit_length n - 1) \<le> n \<and> n < 2 ^ bit_length n"
proof (induction n rule: bit_length.induct)
  case (1 n)
  show ?case
  proof (cases "n div 2 = 0")
    case True
    with 1(2) have "n = 1" by (simp add: div_eq_0_iff)
    then show ?thesis by (simp add: bit_length.simps)
  next
    case False
    then have pos: "0 < n div 2" by simp
    from 1(1) [OF _ pos] 1(2)
    have ih: "2 ^ (bit_length (n div 2) - 1) \<le> n div 2" "n div 2 < 2 ^ bit_length (n div 2)"
      by simp_all
    have eq: "bit_length n = Suc (bit_length (n div 2))"
      using 1(2) by (subst bit_length.simps) simp
    have bl: "0 < bit_length (n div 2)"
      using pos by (subst bit_length.simps) simp
    have "2 * 2 ^ (bit_length (n div 2) - 1) \<le> 2 * (n div 2)"
      using ih(1) by simp
    also have "\<dots> \<le> n" by simp
    finally have lo: "2 ^ (bit_length n - 1) \<le> n"
      using bl by (simp add: eq power_Suc [symmetric] del: power_Suc)
    have "Suc (n div 2) \<le> 2 ^ bit_length (n div 2)"
      using ih(2) by simp
    then have "2 * Suc (n div 2) \<le> 2 * 2 ^ bit_length (n div 2)"
      by (rule mult_le_mono2)
    moreover have "n < 2 * Suc (n div 2)"
      by simp
    ultimately have hi: "n < 2 ^ bit_length n"
      by (simp add: eq)
    from lo hi show ?thesis by simp
  qed
qed

lemma bit_length_eq: "2 ^ k \<le> n \<Longrightarrow> n < 2 ^ Suc k \<Longrightarrow> bit_length n = Suc k"
proof -
  assume a: "2 ^ k \<le> n" "n < 2 ^ Suc k"
  then have pos: "0 < n"
    by (metis less_le_trans zero_less_numeral zero_less_power)
  from bit_length_bounds [OF pos] have b: "2 ^ (bit_length n - 1) \<le> n" "n < 2 ^ bit_length n"
    by simp_all
  have "k < bit_length n"
    using a(1) b(2) by (meson le_less_trans power_less_imp_less_exp one_less_numeral_iff semiring_norm(76))
  moreover have "bit_length n - 1 < Suc k"
    using a(2) b(1) by (meson le_less_trans power_less_imp_less_exp one_less_numeral_iff semiring_norm(76))
  ultimately show ?thesis by linarith
qed

lemma to_double_below_2_64:
  "round_to_53_bits n < 2 ^ 64 \<Longrightarrow> to_double n = Finite (round_to_53_bits n)"
proof -
  assume "round_to_53_bits n < 2 ^ 64"
  moreover have "(2::nat) ^ 64 \<le> 2 ^ 1024"
    by (rule power_increasing) simp_all
  ultimately have "round_to_53_bits n < 2 ^ 1024"
    by (rule less_le_trans)
  then show ?thesis
    by (simp add: to_double_def)
qed

lemma beforeGetMaxSize_rounds:
  "beforeGetMaxSize (Str ''9007199254740993'') = Some (Finite 9007199254740992)"
  "beforeGetMaxSize (Str ''4611686019gb'') = Some (Finite 4611686019000000512)"
proof -
  have v: "decimal_value ''9007199254740993'' = 9007199254740993"
    "decimal_value ''4611686019'' = 4611686019"
    by (simp_all add: decimal_value_def digit_value_def)
  have b: "bit_length 9007199254740993 = 54" "bit_length 4611686019000000000 = 63"
    using bit_length_eq [of 53 9007199254740993] bit_length_eq [of 62 4611686019000000000]
    by simp_all
  have r: "round_to_53_bits 9007199254740993 = 9007199254740992"
    "round_to_53_bits 4611686019000000000 = 4611686019000000512"
    by (simp_all add: round_to_53_bits_def b Let_def)
  have d: "to_double 9007199254740993 = Finite 9007199254740992"
    "to_double 4611686019000000000 = Finite 4611686019000000512"
    by (simp_all add: to_double_below_2_64 r)
  have p: "parseInt ''9007199254740993'' = Finite 9007199254740992"
    "parseInt ''4611686019'' = Finite 4611686019"
    by (simp_all add: parseInt_def v d to_double_exact)
  have "to_double 9007199254740992 = Finite 9007199254740992"
    using to_double_below_2_64 [of 9007199254740992]
    by (simp add: round_to_53_bits_def bit_length_eq [of 53 9007199254740992] Let_def)
  then show "beforeGetMaxSize (Str ''9007199254740993'') = Some (Finite 9007199254740992)"
    using maxSize_of_digits [of "''9007199254740993''"] by (simp add: isDigit_def p)
  have "beforeGetMaxSize (Str (''4611686019'' @ ''gb'')) =
      (case map_of sizeMultiplier (toLowerCase ''gb'') of
         None \<Rightarrow> None | Some m \<Rightarrow> Some (times_multiplier (parseInt ''4611686019'') m))"
    by (rule maxSize_of_unit) (simp_all add: isDigit_def toLowerCase_def toLowerCase_char_def)
  then show "beforeGetMaxSize (Str ''4611686019gb'') = Some (Finite 4611686019000000512)"
    by (simp add: sizeMultiplier_def toLowerCase_def toLowerCase_char_def p d)
qed

text \<open>
  C8. The effective maximum size is the number of the digits times the multiplier of the
  unit: 1000 for kb, 1000000 for mb, 1000000000 for gb, in any letter case, and 1 without
  a unit. The number and the product are doubles; wherever the exact product is a safe
  integer (at most \<open>2^53 - 1\<close>) they are that product. "100mb" is 100000000, "5kb" is
  5000, "10" is 10; an absent limit (\<^verbatim>\<open>null\<close> or \<^verbatim>\<open>undefined\<close>) is
  \<^verbatim>\<open>Number.MAX_SAFE_INTEGER\<close>.
\<close>

theorem beforeGetMaxSize_parses:
  "beforeGetMaxSize (Str ''100mb'') = Some (Finite 100000000)
   \<and> beforeGetMaxSize (Str ''5kb'') = Some (Finite 5000)
   \<and> beforeGetMaxSize (Str ''10'') = Some (Finite 10)
   \<and> beforeGetMaxSize Null = Some (Finite 9007199254740991)
   \<and> beforeGetMaxSize Undefined = Some (Finite 9007199254740991)
   \<and> (ds \<noteq> [] \<and> (\<forall>c\<in>set ds. isDigit c) \<longrightarrow>
        beforeGetMaxSize (Str ds) = Some (times_multiplier (parseInt ds) 1)
        \<and> (toLowerCase u = ''kb'' \<longrightarrow>
              beforeGetMaxSize (Str (ds @ u)) = Some (times_multiplier (parseInt ds) 1000))
        \<and> (toLowerCase u = ''mb'' \<longrightarrow>
              beforeGetMaxSize (Str (ds @ u)) = Some (times_multiplier (parseInt ds) 1000000))
        \<and> (toLowerCase u = ''gb'' \<longrightarrow>
              beforeGetMaxSize (Str (ds @ u)) = Some (times_multiplier (parseInt ds) 1000000000)))
   \<and> (0 < m \<and> decimal_value ds * m \<le> 9007199254740991 \<longrightarrow>
        times_multiplier (parseInt ds) m = Finite (decimal_value ds * m))"
proof -
  have general: "beforeGetMaxSize (Str ds) = Some (times_multiplier (parseInt ds) 1)
        \<and> (toLowerCase u = ''kb'' \<longrightarrow>
              beforeGetMaxSize (Str (ds @ u)) = Some (times_multiplier (parseInt ds) 1000))
        \<and> (toLowerCase u = ''mb'' \<longrightarrow>
              beforeGetMaxSize (Str (ds @ u)) = Some (times_multiplier (parseInt ds) 1000000))
        \<and> (toLowerCase u = ''gb'' \<longrightarrow>
              beforeGetMaxSize (Str (ds @ u)) = Some (times_multiplier (parseInt ds) 1000000000))"
    if ds: "ds \<noteq> []" "\<forall>c\<in>set ds. isDigit c" for ds u
  proof -
    have kb: "beforeGetMaxSize (Str (ds @ u)) = Some (times_multiplier (parseInt ds) 1000)"
      if "toLowerCase u = ''kb''"
      using maxSize_of_unit [OF ds, of u] that by (simp add: sizeMultiplier_def)
    have mb: "beforeGetMaxSize (Str (ds @ u)) = Some (times_multiplier (parseInt ds) 1000000)"
      if "toLowerCase u = ''mb''"
      using maxSize_of_unit [OF ds, of u] that by (simp add: sizeMultiplier_def)
    have gb: "beforeGetMaxSize (Str (ds @ u)) = Some (times_multiplier (parseInt ds) 1000000000)"
      if "toLowerCase u = ''gb''"
      using maxSize_of_unit [OF ds, of u] that by (simp add: sizeMultiplier_def)
    show ?thesis
      using maxSize_of_digits [OF ds] kb mb gb by blast
  qed
  have exact: "0 < m \<and> decimal_value ds * m \<le> 9007199254740991 \<longrightarrow>
        times_multiplier (parseInt ds) m = Finite (decimal_value ds * m)" for ds m
    using product_exact [of ds m] by blast
  have digits: "''100'' \<noteq> [] \<and> (\<forall>c\<in>set ''100''. isDigit c)"
    "''10'' \<noteq> [] \<and> (\<forall>c\<in>set ''10''. isDigit c)"
    by (simp_all add: isDigit_def)
  have units: "toLowerCase ''mb'' = ''mb''"
    by (simp add: toLowerCase_def toLowerCase_char_def)
  have "beforeGetMaxSize (Str (''100'' @ ''mb'')) = Some (times_multiplier (parseInt ''100'') 1000000)"
    using general [of "''100''" "''mb''"] digits units by blast
  then have ex1: "beforeGetMaxSize (Str ''100mb'') = Some (Finite 100000000)"
    using exact [of 1000000 "''100''"] by (simp add: decimal_values)
  have "beforeGetMaxSize (Str ''10'') = Some (times_multiplier (parseInt ''10'') 1)"
    using general [of "''10''"] digits by blast
  then have ex3: "beforeGetMaxSize (Str ''10'') = Some (Finite 10)"
    using exact [of 1 "''10''"] by (simp add: decimal_values)
  have absent: "beforeGetMaxSize Null = Some (Finite 9007199254740991)"
    "beforeGetMaxSize Undefined = Some (Finite 9007199254740991)"
    by (simp_all add: beforeGetMaxSize_def nullish_def MAX_SAFE_INTEGER_def)
  show ?thesis
    using ex1 limit_5kb ex3 absent general [of ds u] exact [of m ds] by blast
qed

theorem beforeGetMaxSize_parses_witness:
  "beforeGetMaxSize (Str ''2GB'') = Some (Finite 2000000000)"
proof -
  have u: "toLowerCase ''GB'' = ''gb''"
    by (simp add: toLowerCase_def toLowerCase_char_def)
  have ds: "''2'' \<noteq> [] \<and> (\<forall>c\<in>set ''2''. isDigit c)"
    by (simp add: isDigit_def)
  have n: "(0::nat) < 1000000000 \<and> decimal_value ''2'' * 1000000000 \<le> 9007199254740991"
    by (simp add: decimal_values)
  have "beforeGetMaxSize (Str (''2'' @ ''GB'')) = Some (times_multiplier (parseInt ''2'') 1000000000)
      \<and> times_multiplier (parseInt ''2'') 1000000000 = Finite (decimal_value ''2'' * 1000000000)"
    using beforeGetMaxSize_parses [of "''2''" "''GB''" 1000000000] u ds n by blast
  then show ?thesis
    by (simp add: decimal_values)
qed

subsection \<open>Formatting a byte count\<close>









subsection \<open>What the setters leave alone\<close>

lemma set_error_fields [simp]:
  "error (set_error t w) = t"
  "state (set_error t w) = state w"
  "xhr (set_error t w) = xhr w"
  "documentId (set_error t w) = documentId w"
  "input_value (set_error t w) = input_value w"
  "documentIdParameter (set_error t w) = documentIdParameter w"
  "documentStatusUrl (set_error t w) = documentStatusUrl w"
  "types (set_error t w) = types w"
  "maxSize_config (set_error t w) = maxSize_config w"
  "uploadUrl (set_error t w) = uploadUrl w"
  "downloadUrl (set_error t w) = downloadUrl w"
  "documentDeleteUrl (set_error t w) = documentDeleteUrl w"
  by (simp_all add: set_error_def)

lemma afterSetState_switch_fields [simp]:
  "state (afterSetState_switch v w) = state w"
  "xhr (afterSetState_switch v w) = xhr w"
  "documentId (afterSetState_switch v w) = documentId w"
  "input_value (afterSetState_switch v w) = input_value w"
  "documentIdParameter (afterSetState_switch v w) = documentIdParameter w"
  "documentStatusUrl (afterSetState_switch v w) = documentStatusUrl w"
  "types (afterSetState_switch v w) = types w"
  "maxSize_config (afterSetState_switch v w) = maxSize_config w"
  "uploadUrl (afterSetState_switch v w) = uploadUrl w"
  "downloadUrl (afterSetState_switch v w) = downloadUrl w"
  "documentDeleteUrl (afterSetState_switch v w) = documentDeleteUrl w"
  by (simp_all add: afterSetState_switch_def split: option.splits)

lemma afterSetState_switch_error:
  "error (afterSetState_switch v w) =
     (if v = Str ''scan-failed'' then Str ''Please check the file and try again'' else error w)"
  by (simp add: afterSetState_switch_def split: option.splits)

lemma afterSetState_fields [simp]:
  "state (afterSetState v old w) = state w"
  "xhr (afterSetState v old w) = xhr w"
  "documentId (afterSetState v old w) = documentId w"
  "input_value (afterSetState v old w) = input_value w"
  "documentIdParameter (afterSetState v old w) = documentIdParameter w"
  "documentStatusUrl (afterSetState v old w) = documentStatusUrl w"
  "types (afterSetState v old w) = types w"
  "maxSize_config (afterSetState v old w) = maxSize_config w"
  "uploadUrl (afterSetState v old w) = uploadUrl w"
  "downloadUrl (afterSetState v old w) = downloadUrl w"
  "documentDeleteUrl (afterSetState v old w) = documentDeleteUrl w"
  by (simp_all add: afterSetState_def split: option.splits)

lemma afterSetState_error:
  "error (afterSetState v old w) =
     (if v = Str ''scan-failed'' then Str ''Please check the file and try again'' else error w)"
  by (simp add: afterSetState_def afterSetState_switch_error split: option.splits)

lemma set_state_fields [simp]:
  "state (set_state v w) = v"
  "xhr (set_state v w) = xhr w"
  "documentId (set_state v w) = documentId w"
  "input_value (set_state v w) = input_value w"
  "documentIdParameter (set_state v w) = documentIdParameter w"
  "documentStatusUrl (set_state v w) = documentStatusUrl w"
  "types (set_state v w) = types w"
  "maxSize_config (set_state v w) = maxSize_config w"
  "uploadUrl (set_state v w) = uploadUrl w"
  "downloadUrl (set_state v w) = downloadUrl w"
  "documentDeleteUrl (set_state v w) = documentDeleteUrl w"
  by (simp_all add: set_state_def)

lemma set_state_error:
  "v \<noteq> Str ''scan-failed'' \<Longrightarrow> error (set_state v w) = error w"
  by (simp add: set_state_def afterSetState_error)

lemma set_error_truthy:
  "truthy t \<Longrightarrow> error_cn (set_error t w) = Some t \<and> ''neo-invalid'' \<in> set (cls (set_error t w))"
  by (simp add: set_error_def NeoArray_add_def)









lemma upload_fields:
  "state (fst (upload f w)) = Str ''starting''"
  "xhr (fst (upload f w)) = Some f"
  "snd (upload f w) = [SetTimeout (UploadResume f) 100]"
  by (simp_all add: upload_def)

subsection \<open>Abort and error of a transfer\<close>



subsection \<open>Selecting a file\<close>

lemma accepts:
  assumes "types w = None \<or> (\<exists>ts. types w = Some ts \<and> truthy (get_property ts (file_type (file_name f))))"
    and "\<not> exceeds (file_size f) (beforeGetMaxSize (maxSize_config w))"
  shows "onInputValueChange (f # fs) w =
    upload f (set_error (Str []) (w\<lparr>fileSize := Some (formatSize (Some (file_size f)) [] [])\<rparr>))"
  using assms by (auto simp: onInputValueChange_def)

lemma rejecting_branches:
  assumes "(\<exists>ts. types w = Some ts \<and> \<not> truthy (get_property ts (file_type (file_name f))))
           \<or> exceeds (file_size f) (beforeGetMaxSize (maxSize_config w))"
  shows "snd (onInputValueChange (f # fs) w) = []
         \<and> state (fst (onInputValueChange (f # fs) w)) = state w
         \<and> xhr (fst (onInputValueChange (f # fs) w)) = xhr w
         \<and> (\<exists>msg. msg \<noteq> []
                \<and> error_cn (fst (onInputValueChange (f # fs) w)) = Some (Str msg)
                \<and> ''neo-invalid'' \<in> set (cls (fst (onInputValueChange (f # fs) w))))"
proof -
  define bad_type where
    "bad_type = (case types w of None \<Rightarrow> False
                 | Some ts \<Rightarrow> \<not> truthy (get_property ts (file_type (file_name f))))"
  define too_big where "too_big = exceeds (file_size f) (beforeGetMaxSize (maxSize_config w))"
  define types_text where
    "types_text = ''Please use these file types: .''
            @ join '' .'' (Object_keys (case types w of None \<Rightarrow> [] | Some ts \<Rightarrow> ts))"
  define size_text where
    "size_text = ''File size exceeds ''
            @ toUpperCase (case toString (maxSize_config w) of None \<Rightarrow> [] | Some text \<Rightarrow> text)"
  from assms have bad: "bad_type \<or> too_big"
    by (auto simp: bad_type_def too_big_def)
  obtain msg where msg: "msg \<noteq> []" "onInputValueChange (f # fs) w = (set_error (Str msg) w, [])"
  proof (cases bad_type)
    case True
    then have "onInputValueChange (f # fs) w = (set_error (Str types_text) w, [])"
      by (simp add: onInputValueChange_def bad_type_def types_text_def)
    then show ?thesis
      by (intro that [of types_text]) (simp_all add: types_text_def)
  next
    case False
    with bad have too_big by simp
    with False have "onInputValueChange (f # fs) w = (set_error (Str size_text) w, [])"
      by (simp add: onInputValueChange_def bad_type_def too_big_def size_text_def)
    then show ?thesis
      by (intro that [of size_text]) (simp_all add: size_text_def)
  qed
  have "truthy (Str msg)"
    using msg(1) by simp
  from set_error_truthy [OF this, of w] msg show ?thesis
    by auto
qed

text \<open>
  C6 does not hold of the code. The type check reads \<^verbatim>\<open>types[type]\<close>, which finds
  the members that \<^verbatim>\<open>types\<close> inherits from \<^verbatim>\<open>Object.prototype\<close> as well as its
  own keys. With \<^verbatim>\<open>types = {pdf: true}\<close> the file \<^verbatim>\<open>a.constructor\<close> has a type
  that is not among the allowed ones (the own keys, which the error message of the check
  lists), and its size is within the limit; yet the read gives the inherited
  \<^verbatim>\<open>Object\<close>, which is truthy: no error text is set, the class \<^verbatim>\<open>neo-invalid\<close> is
  not added, the widget leaves "ready" for "starting", and the transfer is started.
\<close>

theorem inherited_type_is_uploaded:
  "types pdf_widget = Some [(''pdf'', Bool True)]
   \<and> file_type ''a.constructor'' = ''constructor''
   \<and> ''constructor'' \<notin> set (Object_keys [(''pdf'', Bool True)])
   \<and> get_property [(''pdf'', Bool True)] ''constructor'' = Native ''constructor''
   \<and> state pdf_widget = Str ''ready''
   \<and> snd (onInputValueChange [\<lparr>file_name = ''a.constructor'', file_size = 1\<rparr>] pdf_widget)
       = [SetTimeout (UploadResume \<lparr>file_name = ''a.constructor'', file_size = 1\<rparr>) 100]
   \<and> state (fst (onInputValueChange [\<lparr>file_name = ''a.constructor'', file_size = 1\<rparr>] pdf_widget))
       = Str ''starting''
   \<and> xhr (fst (onInputValueChange [\<lparr>file_name = ''a.constructor'', file_size = 1\<rparr>] pdf_widget))
       = Some \<lparr>file_name = ''a.constructor'', file_size = 1\<rparr>
   \<and> error (fst (onInputValueChange [\<lparr>file_name = ''a.constructor'', file_size = 1\<rparr>] pdf_widget))
       = Str []
   \<and> error_cn (fst (onInputValueChange [\<lparr>file_name = ''a.constructor'', file_size = 1\<rparr>] pdf_widget))
       = None
   \<and> ''neo-invalid'' \<notin> set (cls (fst (onInputValueChange
         [\<lparr>file_name = ''a.constructor'', file_size = 1\<rparr>] pdf_widget)))
   \<and> snd (upload_resume \<lparr>file_name = ''a.constructor'', file_size = 1\<rparr>
         (fst (onInputValueChange [\<lparr>file_name = ''a.constructor'', file_size = 1\<rparr>] pdf_widget)))
       = [XhrSend Null \<lparr>file_name = ''a.constructor'', file_size = 1\<rparr>]"
proof -
  have ty: "types pdf_widget = Some [(''pdf'', Bool True)]" "state pdf_widget = Str ''ready''"
    by (simp_all add: pdf_widget_def defaults_def)
  have ft: "file_type ''a.constructor'' = ''constructor''"
    by (simp add: file_type_def)
  have key: "''constructor'' \<notin> set (Object_keys [(''pdf'', Bool True)])"
    "get_property [(''pdf'', Bool True)] ''constructor'' = Native ''constructor''"
    by (simp_all add: Object_keys_def get_property_def Object_prototype_def)
  have size: "\<not> exceeds 1 (beforeGetMaxSize (maxSize_config pdf_widget))"
    by (simp add: pdf_widget_def defaults_def limit_5kb exceeds_def)
  have eq: "onInputValueChange [\<lparr>file_name = ''a.constructor'', file_size = 1\<rparr>] pdf_widget =
      upload \<lparr>file_name = ''a.constructor'', file_size = 1\<rparr>
        (set_error (Str [])
           (pdf_widget\<lparr>fileSize := Some (formatSize (Some 1) [] [])\<rparr>))"
    using accepts [of pdf_widget "\<lparr>file_name = ''a.constructor'', file_size = 1\<rparr>" "[]"]
      ty ft key size by simp
  have up: "snd (onInputValueChange [\<lparr>file_name = ''a.constructor'', file_size = 1\<rparr>] pdf_widget)
       = [SetTimeout (UploadResume \<lparr>file_name = ''a.constructor'', file_size = 1\<rparr>) 100]"
    "state (fst (onInputValueChange [\<lparr>file_name = ''a.constructor'', file_size = 1\<rparr>] pdf_widget))
       = Str ''starting''"
    "xhr (fst (onInputValueChange [\<lparr>file_name = ''a.constructor'', file_size = 1\<rparr>] pdf_widget))
       = Some \<lparr>file_name = ''a.constructor'', file_size = 1\<rparr>"
    unfolding eq by (simp_all add: upload_fields)
  have shown: "error (fst (onInputValueChange [\<lparr>file_name = ''a.constructor'', file_size = 1\<rparr>] pdf_widget))
       = Str []"
    "error_cn (fst (onInputValueChange [\<lparr>file_name = ''a.constructor'', file_size = 1\<rparr>] pdf_widget))
       = None"
    "''neo-invalid'' \<notin> set (cls (fst (onInputValueChange
         [\<lparr>file_name = ''a.constructor'', file_size = 1\<rparr>] pdf_widget)))"
    unfolding eq
    by (simp_all add: upload_def set_state_def afterSetState_def afterSetState_switch_def
        set_error_def state_class_def NeoArray_add_def NeoArray_remove_def pdf_widget_def
        defaults_def)
  have sent: "snd (upload_resume \<lparr>file_name = ''a.constructor'', file_size = 1\<rparr>
         (fst (onInputValueChange [\<lparr>file_name = ''a.constructor'', file_size = 1\<rparr>] pdf_widget)))
       = [XhrSend Null \<lparr>file_name = ''a.constructor'', file_size = 1\<rparr>]"
    unfolding eq
    by (simp add: upload_resume_def upload_def pdf_widget_def defaults_def)
  from ty ft key up shown sent show ?thesis
    by (intro conjI) assumption+
qed



lemma file_type_after_last_point:
  assumes "CHR ''.'' \<notin> set ext"
  shows "file_type (base @ ''.'' @ ext) = ext"
proof -
  have "takeWhile (\<lambda>c. c \<noteq> CHR ''.'') (rev ext @ CHR ''.'' # rev base) = rev ext"
    using assms by (intro takeWhile_tail [THEN trans] ) (auto simp: takeWhile_eq_all_conv)
  then show ?thesis
    by (simp add: file_type_def)
qed

text \<open>
  C3 as stated does not hold: with \<^verbatim>\<open>types = {pdf: true}\<close> the file \<^verbatim>\<open>a.PDF\<close>, whose
  type is "pdf" up to letter case and whose size is within the limit, is rejected with the
  file types message and nothing is started.
\<close>

theorem extension_check_counterexample:
  "toLowerCase (file_type ''a.PDF'') = ''pdf''
   \<and> types pdf_widget = Some [(''pdf'', Bool True)]
   \<and> \<not> exceeds 1 (beforeGetMaxSize (maxSize_config pdf_widget))
   \<and> snd (onInputValueChange [\<lparr>file_name = ''a.PDF'', file_size = 1\<rparr>] pdf_widget) = []
   \<and> error (fst (onInputValueChange [\<lparr>file_name = ''a.PDF'', file_size = 1\<rparr>] pdf_widget))
       = Str ''Please use these file types: .pdf''"
  by (simp add: pdf_widget_def defaults_def limit_5kb exceeds_def file_type_def toLowerCase_def
      toLowerCase_char_def onInputValueChange_def get_property_def Object_prototype_def
      Object_keys_def)

text \<open>
  C3, as the code has it. The type is the text behind the last point of the file name,
  and the check reads \<^verbatim>\<open>types[type]\<close> with the type exactly as it is spelled: the file
  goes to \<^verbatim>\<open>upload\<close> if and only if \<^verbatim>\<open>types\<close> is not configured or that read is
  truthy (and the size is within the limit). A type that is no key of \<^verbatim>\<open>types\<close> in
  this spelling (and no member of \<^verbatim>\<open>Object.prototype\<close>) is rejected with the file
  types message, whatever keys it equals up to letter case.
\<close>

theorem type_check_is_exact:
  "(CHR ''.'' \<notin> set ext \<longrightarrow> file_type (base @ ''.'' @ ext) = ext)
   \<and> (snd (onInputValueChange (f # fs) w) \<noteq> [] \<longleftrightarrow>
        (types w = None
          \<or> (\<exists>ts. types w = Some ts \<and> truthy (get_property ts (file_type (file_name f)))))
        \<and> \<not> exceeds (file_size f) (beforeGetMaxSize (maxSize_config w)))
   \<and> (types w = Some ts \<and> map_of ts (file_type (file_name f)) = None
        \<and> file_type (file_name f) \<notin> set Object_prototype \<longrightarrow>
        snd (onInputValueChange (f # fs) w) = []
        \<and> error (fst (onInputValueChange (f # fs) w))
            = Str (''Please use these file types: .'' @ join '' .'' (Object_keys ts)))"
proof -
  have a: "CHR ''.'' \<notin> set ext \<longrightarrow> file_type (base @ ''.'' @ ext) = ext"
    using file_type_after_last_point by blast
  have b: "snd (onInputValueChange (f # fs) w) \<noteq> [] \<longleftrightarrow>
        (types w = None
          \<or> (\<exists>ts. types w = Some ts \<and> truthy (get_property ts (file_type (file_name f)))))
        \<and> \<not> exceeds (file_size f) (beforeGetMaxSize (maxSize_config w))"
    by (cases "types w") (simp_all add: onInputValueChange_def upload_def)
  have c: "snd (onInputValueChange (f # fs) w) = []
        \<and> error (fst (onInputValueChange (f # fs) w))
            = Str (''Please use these file types: .'' @ join '' .'' (Object_keys ts))"
    if "types w = Some ts" "map_of ts (file_type (file_name f)) = None"
      "file_type (file_name f) \<notin> set Object_prototype"
    using that by (simp add: onInputValueChange_def get_property_def)
  from a b c show ?thesis
    by blast
qed

theorem type_check_is_exact_witness:
  "types pdf_widget = Some [(''pdf'', Bool True)]
   \<and> file_type (file_name \<lparr>file_name = ''a.PDF'', file_size = 1\<rparr>) = ''PDF''
   \<and> snd (onInputValueChange [\<lparr>file_name = ''a.PDF'', file_size = 1\<rparr>] pdf_widget) = []
   \<and> error (fst (onInputValueChange [\<lparr>file_name = ''a.PDF'', file_size = 1\<rparr>] pdf_widget))
       = Str (''Please use these file types: .'' @ join '' .'' (Object_keys [(''pdf'', Bool True)]))"
proof -
  have ty: "types pdf_widget = Some [(''pdf'', Bool True)]"
    by (simp add: pdf_widget_def defaults_def)
  have point: "CHR ''.'' \<notin> set ''PDF''"
    by simp
  have ft: "file_type (file_name \<lparr>file_name = ''a.PDF'', file_size = 1\<rparr>) = ''PDF''"
    using type_check_is_exact [of "''PDF''" "''a''"] point by simp
  have key: "map_of [(''pdf'', Bool True)] ''PDF'' = None" "''PDF'' \<notin> set Object_prototype"
    by (simp_all add: Object_prototype_def)
  from type_check_is_exact [of _ _ "\<lparr>file_name = ''a.PDF'', file_size = 1\<rparr>" "[]" pdf_widget
      "[(''pdf'', Bool True)]"] ty ft key
  show ?thesis
    by simp
qed

subsection \<open>The answer to a status poll\<close>

lemma nat_to_string_3_digits:
  assumes "100 \<le> n" and "n < 1000"
  shows "nat_to_string n =
    [digit_char (n div 100), digit_char (n div 10 mod 10), digit_char (n mod 10)]"
proof -
  have small: "n div 100 < 10"
    using assms(2) by (simp add: less_mult_imp_div_less)
  have big: "\<not> n div 10 < 10"
    using div_le_mono [OF assms(1), of 10] by simp
  have big': "\<not> n < 10"
    using assms(1) by simp
  have "nat_to_string (n div 100) = [digit_char (n div 100)]"
    using small by (subst nat_to_string.simps) simp
  moreover have "nat_to_string (n div 10) =
      nat_to_string (n div 10 div 10) @ [digit_char (n div 10 mod 10)]"
    using big by (subst nat_to_string.simps) simp
  moreover have "n div 10 div 10 = n div 100"
    by (simp add: div_mult2_eq [symmetric])
  moreover have "nat_to_string n = nat_to_string (n div 10) @ [digit_char (n mod 10)]"
    using big' by (subst nat_to_string.simps) simp
  ultimately show ?thesis
    by simp
qed

lemma digit_char_2:
  assumes "d < 10"
  shows "digit_char d = CHR ''2'' \<longleftrightarrow> d = 2"
proof -
  have "(''0123456789'' ! d = ''0123456789'' ! 2) = (d = 2)"
    using assms by (intro nth_eq_iff_index_eq) simp_all
  then show ?thesis
    by (simp add: digit_char_def)
qed

lemma div_100_is_2: "(status::nat) div 100 = 2 \<longleftrightarrow> 200 \<le> status \<and> status \<le> 299"
proof
  assume d: "status div 100 = 2"
  have "100 * (status div 100) \<le> status"
    by (rule times_div_less_eq_dividend)
  moreover have "status < 100 + 100 * (status div 100)"
    by (rule dividend_less_times_div) simp
  ultimately show "200 \<le> status \<and> status \<le> 299"
    unfolding d by simp
next
  assume "200 \<le> status \<and> status \<le> 299"
  then show "status div 100 = 2"
    by (intro div_nat_eqI) simp_all
qed

lemma status_2xx_iff:
  assumes "100 \<le> status" and "status < 1000"
  shows "status_2xx status \<longleftrightarrow> 200 \<le> status \<and> status \<le> 299"
proof -
  have "status div 100 < 10"
    using assms(2) by (simp add: less_mult_imp_div_less)
  then have "digit_char (status div 100) = CHR ''2'' \<longleftrightarrow> status div 100 = 2"
    by (rule digit_char_2)
  then show ?thesis
    unfolding div_100_is_2 by (simp add: status_2xx_def nat_to_string_3_digits [OF assms])
qed

lemma status_200: "status_2xx 200"
  using status_2xx_iff [of 200] by simp

lemma url_with_id_state [simp]: "url_with_id u (w\<lparr>state := v\<rparr>) = url_with_id u w"
  by (simp add: url_with_id_def split: option.splits)

lemma set_state_throws_iff:
  "set_state_throws value w \<longleftrightarrow>
     value \<noteq> state w
     \<and> (toString value = None \<or> toString (state w) = None
          \<or> (value = Str ''downloadable''
               \<and> (toString (downloadUrl w) = None \<or> toString (documentId w) = None)))"
  by (auto simp: set_state_throws_def afterSetState_throws_def state_class_def url_with_id_def
      split: option.splits)

lemma assign_state_cases:
  "assign_state value w =
     (if set_state_throws value w then Inl (TypeError, set_state value w)
      else Inr (set_state value w))"
  by (simp add: assign_state_def)

text \<open>
  C5. The answer to a status poll. The test on the status is the one for 2xx: among
  the three-digit statuses it holds exactly for 200 to 299. When it fails, the error text
  becomes "Document status service error: " followed by the status text (it is shown in
  the message node, and the widget gets the class \<^verbatim>\<open>neo-invalid\<close>), and the state is
  left as it is. When it holds and the body has the status "scanning", the widget is left
  as it is (so it stays in "processing") and one timer of 2000 ms is set that runs
  \<^verbatim>\<open>checkDocumentStatus\<close> again. When it holds and the body has any other status, the
  state becomes that value, whatever it is, and nothing is scheduled; the method then
  returns, unless the hook of the state throws a \<^verbatim>\<open>TypeError\<close>, which it does
  exactly when the state changes and the new state, the old state or (for the new state
  "downloadable") the download URL or the document id does not convert to a string.
\<close>

theorem checkDocumentStatus_response_cases:
  "(100 \<le> status \<and> status < 1000 \<longrightarrow> (status_2xx status \<longleftrightarrow> 200 \<le> status \<and> status \<le> 299))
   \<and> (\<not> status_2xx status \<longrightarrow>
        (\<exists>w'. checkDocumentStatus_response status statusText b w = Inr (w', [])
           \<and> error w' = Str (''Document status service error: '' @ statusText)
           \<and> error_cn w' = Some (Str (''Document status service error: '' @ statusText))
           \<and> ''neo-invalid'' \<in> set (cls w')
           \<and> ''Document status service error: '' @ statusText \<noteq> []
           \<and> state w' = state w))
   \<and> (status_2xx status \<and> b = Json v \<and> \<not> nullish v \<longrightarrow>
        (property v ''status'' = Str ''scanning'' \<longrightarrow>
           checkDocumentStatus_response status statusText b w
             = Inr (w, [SetTimeout CheckDocumentStatus 2000]))
        \<and> (property v ''status'' \<noteq> Str ''scanning'' \<longrightarrow>
           (\<exists>w'. state w' = property v ''status''
              \<and> checkDocumentStatus_response status statusText b w
                  = (if set_state_throws (property v ''status'') w
                     then Inl (TypeError, w') else Inr (w', [])))))
   \<and> (set_state_throws value w \<longleftrightarrow>
         value \<noteq> state w
         \<and> (toString value = None \<or> toString (state w) = None
              \<or> (value = Str ''downloadable''
                   \<and> (toString (downloadUrl w) = None \<or> toString (documentId w) = None))))"
proof -
  have a: "100 \<le> status \<and> status < 1000 \<longrightarrow>
      (status_2xx status \<longleftrightarrow> 200 \<le> status \<and> status \<le> 299)"
    using status_2xx_iff by blast
  have b: "\<exists>w'. checkDocumentStatus_response status statusText b w = Inr (w', [])
           \<and> error w' = Str (''Document status service error: '' @ statusText)
           \<and> error_cn w' = Some (Str (''Document status service error: '' @ statusText))
           \<and> ''neo-invalid'' \<in> set (cls w')
           \<and> ''Document status service error: '' @ statusText \<noteq> []
           \<and> state w' = state w"
    if "\<not> status_2xx status"
    using that
      set_error_truthy [of "Str (''Document status service error: '' @ statusText)" w]
    by (simp add: checkDocumentStatus_response_def)
  have c: "checkDocumentStatus_response status statusText b w
             = Inr (w, [SetTimeout CheckDocumentStatus 2000])"
    if "status_2xx status" "b = Json v" "\<not> nullish v" "property v ''status'' = Str ''scanning''"
    using that by (simp add: checkDocumentStatus_response_def)
  have d: "\<exists>w'. state w' = property v ''status''
              \<and> checkDocumentStatus_response status statusText b w
                  = (if set_state_throws (property v ''status'') w
                     then Inl (TypeError, w') else Inr (w', []))"
    if "status_2xx status" "b = Json v" "\<not> nullish v" "property v ''status'' \<noteq> Str ''scanning''"
  proof (intro exI conjI)
    show "state (set_state (property v ''status'') w) = property v ''status''"
      by simp
    show "checkDocumentStatus_response status statusText b w
        = (if set_state_throws (property v ''status'') w
           then Inl (TypeError, set_state (property v ''status'') w)
           else Inr (set_state (property v ''status'') w, []))"
      using that by (simp add: checkDocumentStatus_response_def assign_state_cases)
  qed
  from a b c d set_state_throws_iff [of "value" w] show ?thesis
    by blast
qed

theorem checkDocumentStatus_response_cases_witness:
  "status_2xx 200 \<and> \<not> status_2xx 404
   \<and> checkDocumentStatus_response 200 ''OK'' (Json (Obj [(''status'', Str ''scanning'')]))
        processing_widget
      = Inr (processing_widget, [SetTimeout CheckDocumentStatus 2000])
   \<and> (\<exists>w'. checkDocumentStatus_response 200 ''OK''
               (Json (Obj [(''status'', Str ''downloadable'')])) processing_widget = Inr (w', [])
          \<and> state w' = Str ''downloadable'')
   \<and> (\<exists>w'. checkDocumentStatus_response 200 ''OK''
               (Json (Obj [(''status'', Obj [(''toString'', Num ''1'')])])) processing_widget
               = Inl (TypeError, w')
          \<and> state w' = Obj [(''toString'', Num ''1'')])
   \<and> (\<exists>w'. checkDocumentStatus_response 404 ''Not Found'' Malformed processing_widget
               = Inr (w', [])
          \<and> error_cn w' = Some (Str ''Document status service error: Not Found'')
          \<and> state w' = Str ''processing'')"
proof -
  have s: "status_2xx 200" "\<not> status_2xx 404"
    using checkDocumentStatus_response_cases [of 200] checkDocumentStatus_response_cases [of 404]
    by simp_all
  have p: "\<not> nullish (Obj [(''status'', Str ''scanning'')])"
    "\<not> nullish (Obj [(''status'', Str ''downloadable'')])"
    "\<not> nullish (Obj [(''status'', Obj [(''toString'', Num ''1'')])])"
    "property (Obj [(''status'', Str ''scanning'')]) ''status'' = Str ''scanning''"
    "property (Obj [(''status'', Str ''downloadable'')]) ''status'' = Str ''downloadable''"
    "property (Obj [(''status'', Obj [(''toString'', Num ''1'')])]) ''status''
       = Obj [(''toString'', Num ''1'')]"
    "state processing_widget = Str ''processing''"
    "downloadUrl processing_widget = Null" "documentId processing_widget = Num ''7''"
    by (simp_all add: nullish_def get_property_def processing_widget_def defaults_def)
  have "checkDocumentStatus_response 200 ''OK'' (Json (Obj [(''status'', Str ''scanning'')]))
        processing_widget
      = Inr (processing_widget, [SetTimeout CheckDocumentStatus 2000])"
    using checkDocumentStatus_response_cases
      [of 200 "''OK''" "Json (Obj [(''status'', Str ''scanning'')])" processing_widget
        "Obj [(''status'', Str ''scanning'')]"] s p
    by simp
  moreover have "\<exists>w'. checkDocumentStatus_response 200 ''OK''
               (Json (Obj [(''status'', Str ''downloadable'')])) processing_widget = Inr (w', [])
          \<and> state w' = Str ''downloadable''"
    using checkDocumentStatus_response_cases
      [of 200 "''OK''" "Json (Obj [(''status'', Str ''downloadable'')])" processing_widget
        "Obj [(''status'', Str ''downloadable'')]" "Str ''downloadable''"] s p
    by auto
  moreover have "\<exists>w'. checkDocumentStatus_response 200 ''OK''
               (Json (Obj [(''status'', Obj [(''toString'', Num ''1'')])])) processing_widget
               = Inl (TypeError, w')
          \<and> state w' = Obj [(''toString'', Num ''1'')]"
    using checkDocumentStatus_response_cases
      [of 200 "''OK''" "Json (Obj [(''status'', Obj [(''toString'', Num ''1'')])])"
        processing_widget "Obj [(''status'', Obj [(''toString'', Num ''1'')])]"
        "Obj [(''toString'', Num ''1'')]"] s p
    by auto
  moreover have "\<exists>w'. checkDocumentStatus_response 404 ''Not Found'' Malformed processing_widget
               = Inr (w', [])
          \<and> error_cn w' = Some (Str ''Document status service error: Not Found'')
          \<and> state w' = Str ''processing''"
    using checkDocumentStatus_response_cases
      [of 404 "''Not Found''" Malformed processing_widget] s p
    by auto
  ultimately show ?thesis
    using s by blast
qed

subsection \<open>Runs of the event loop\<close>

lemma wdg_fold_post [simp]: "wdg (fold post effects p) = wdg p"
proof (induction effects arbitrary: p)
  case Nil
  show ?case by simp
next
  case (Cons e es)
  show ?case
    by (cases e) (simp_all add: Cons.IH)
qed

lemma wdg_settle [simp]: "wdg (settle r p) = fst r"
  by (simp add: settle_def)

lemma widget_of_Inr [simp]: "widget_of (Inr r) = fst r"
  by (cases r) simp

lemma wdg_settle_outcome [simp]: "wdg (settle_outcome r p) = widget_of r"
  by (cases r) (simp_all add: settle_outcome_def split: prod.splits)

lemma timers_fold_post:
  "t \<in> set (timers p) \<Longrightarrow> t \<in> set (timers (fold post effects p))"
proof (induction effects arbitrary: p)
  case Nil
  then show ?case by simp
next
  case (Cons e es)
  show ?case
    by (cases e) (use Cons in simp_all)
qed

lemmas handler_defs =
  onInputValueChange_def upload_def upload_resume_def onUploadProgress_def onUploadDone_def
  checkDocumentStatus_def checkDocumentStatus_response_def onActionButtonClick_def
  deleteDocument_def deleteDocument_response_def clear_def abortUpload_def
  settle_def settle_outcome_def set_state_def exceeds_def nullish_def get_property_def
  assign_state_def set_state_throws_def afterSetState_throws_def state_class_def
  url_with_id_def

lemma upload_run:
  "map_option (\<lambda>p. (state (wdg p), documentId (wdg p), timers p, fetches p, transfers p))
     (run [Input [pdf_file], Timeout (UploadResume pdf_file), UploadProgress 1200 1200,
           LoadEnd 1200 accepted_body] upload_page)
   = Some (Str ''processing'', Num ''7'', [], [StatusRequest], 0)"
  by (simp add: upload_page_def pdf_file_def accepted_body_def defaults_def handler_defs
      beforeGetMaxSize_def MAX_SAFE_INTEGER_def Let_def)

subsection \<open>The end of a transfer\<close>

lemma documentId_kept:
  "documentId (fst (clear w)) = documentId w"
  "documentId (fst (upload f w)) = documentId w"
  "documentId (fst (upload_resume f w)) = documentId w"
  "documentId (fst (checkDocumentStatus w)) = documentId w"
  "documentId (fst (deleteDocument w)) = documentId w"
  "documentId (fst (abortUpload w)) = documentId w"
  "documentId (onUploadProgress loaded total_bytes w) = documentId w"
  "documentId (onUploadError e_type w) = documentId w"
  by (simp_all add: clear_def upload_def upload_resume_def checkDocumentStatus_def
      deleteDocument_def abortUpload_def onUploadProgress_def onUploadError_def
      split: option.splits)

lemma documentId_kept_handlers:
  "documentId (fst (onInputValueChange files w)) = documentId w"
  "documentId (fst (onActionButtonClick w)) = documentId w"
  "documentId (fst (onUploadAbort w)) = documentId w"
  "documentId (fst (deleteDocument_response status statusText w)) = documentId w"
  by (simp_all add: onInputValueChange_def onActionButtonClick_def onUploadAbort_def
      deleteDocument_response_def documentId_kept split: list.splits)

lemma documentId_kept_status:
  "documentId (widget_of (checkDocumentStatus_response status statusText b w)) = documentId w"
  by (simp add: checkDocumentStatus_response_def assign_state_def split: body.splits)

lemma set_state_throws_Str:
  "set_state_throws (Str s) w \<longleftrightarrow>
     toString (state w) = None
     \<or> (state w \<noteq> Str ''downloadable'' \<and> s = ''downloadable''
         \<and> (toString (downloadUrl w) = None \<or> toString (documentId w) = None))"
  by (cases "state w") (auto simp: set_state_throws_iff)

text \<open>The end of a transfer with something loaded and a body that is not \<^verbatim>\<open>null\<close>.\<close>

lemma onUploadDone_accepted:
  assumes "loaded \<noteq> 0" "\<not> nullish response" "truthy (property response ''success'')"
  shows "onUploadDone loaded (Json response) w =
    (let me1 = w\<lparr>xhr := None, documentId := property response (documentIdParameter w)\<rparr>
     in if truthy (documentStatusUrl w)
        then if set_state_throws (Str ''processing'') me1
             then Inl (TypeError, set_state (Str ''processing'') me1)
             else Inr (checkDocumentStatus (set_state (Str ''processing'') me1))
        else if set_state_throws (Str ''downloadable'') me1
             then Inl (TypeError, set_state (Str ''downloadable'') me1)
             else Inr (set_state (Str ''downloadable'') me1, []))"
  using assms by (simp add: onUploadDone_def Let_def assign_state_def)

lemma onUploadDone_rejected:
  assumes "loaded \<noteq> 0" "\<not> nullish response" "\<not> truthy (property response ''success'')"
  shows "onUploadDone loaded (Json response) w =
    (let me1 = set_error (property response ''message'') (w\<lparr>xhr := None\<rparr>)
     in if set_state_throws (Str ''upload-failed'') me1
        then Inl (TypeError, set_state (Str ''upload-failed'') me1)
        else Inr (set_state (Str ''upload-failed'') me1, []))"
  using assms by (simp add: onUploadDone_def Let_def assign_state_def)

lemma documentId_onUploadDone:
  "documentId (widget_of (onUploadDone loaded b w)) =
     (case b of
        Json response \<Rightarrow>
          if loaded \<noteq> 0 \<and> \<not> nullish response \<and> truthy (property response ''success'')
          then property response (documentIdParameter w) else documentId w
      | Malformed \<Rightarrow> documentId w)"
proof (cases b)
  case Malformed
  then show ?thesis
    by (simp add: onUploadDone_def Let_def)
next
  case (Json response)
  consider "loaded = 0 \<or> nullish response"
    | "loaded \<noteq> 0" "\<not> nullish response" "truthy (property response ''success'')"
    | "loaded \<noteq> 0" "\<not> nullish response" "\<not> truthy (property response ''success'')"
    by blast
  then show ?thesis
  proof cases
    case 1
    then show ?thesis
      unfolding Json by (auto simp: onUploadDone_def Let_def)
  next
    case 2
    then show ?thesis
      unfolding Json by (simp add: onUploadDone_accepted Let_def documentId_kept)
  next
    case 3
    then show ?thesis
      unfolding Json by (simp add: onUploadDone_rejected Let_def)
  qed
qed

lemma step_documentId:
  assumes "step e p = Some p'"
  shows "documentId (wdg p') = documentId (wdg p)
         \<or> (\<exists>loaded response. e = LoadEnd loaded (Json response) \<and> loaded \<noteq> 0
               \<and> \<not> nullish response \<and> truthy (property response ''success''))"
proof (cases e)
  case (Input files)
  with assms show ?thesis by (auto simp: documentId_kept_handlers)
next
  case Click
  with assms show ?thesis by (auto simp: documentId_kept_handlers)
next
  case (Timeout t)
  with assms show ?thesis
    by (cases t) (auto simp: Let_def documentId_kept split: if_splits)
next
  case (UploadProgress loaded total_bytes)
  with assms show ?thesis by (auto simp: documentId_kept split: if_splits)
next
  case UploadAbort
  with assms show ?thesis by (auto simp: documentId_kept_handlers split: if_splits)
next
  case (UploadError e_type)
  with assms show ?thesis by (auto simp: documentId_kept split: if_splits)
next
  case (LoadEnd loaded b)
  with assms have p': "p' = settle_outcome (onUploadDone loaded b (wdg p)) (p\<lparr>transfers := transfers p - 1\<rparr>)"
    by (simp split: if_splits)
  show ?thesis
    unfolding p' LoadEnd wdg_settle_outcome documentId_onUploadDone
    by (cases b) auto
next
  case (Response r status statusText b)
  with assms show ?thesis
    by (cases r) (auto simp: documentId_kept_handlers documentId_kept_status split: if_splits)
qed

lemma run_documentId:
  assumes "run evs p = Some p'" and "documentId (wdg p') \<noteq> documentId (wdg p)"
  shows "\<exists>loaded response. LoadEnd loaded (Json response) \<in> set evs \<and> loaded \<noteq> 0
           \<and> \<not> nullish response \<and> truthy (property response ''success'')"
  using assms
proof (induction evs arbitrary: p)
  case Nil
  then show ?case by simp
next
  case (Cons e es)
  from Cons.prems(1) obtain q where q: "step e p = Some q" "run es q = Some p'"
    by (auto split: option.splits)
  show ?case
  proof (cases "documentId (wdg p') = documentId (wdg q)")
    case True
    with Cons.prems(2) have "documentId (wdg q) \<noteq> documentId (wdg p)"
      by simp
    with step_documentId [OF q(1)] show ?thesis
      by auto
  next
    case False
    from Cons.IH [OF q(2) False] show ?thesis
      by auto
  qed
qed

lemma onUploadDone_nothing_loaded:
  "onUploadDone 0 b w = Inr (w\<lparr>xhr := None\<rparr>, [])"
  by (simp add: onUploadDone_def)

lemma onUploadDone_stores:
  assumes "loaded \<noteq> 0" "\<not> nullish response" "truthy (property response ''success'')"
  shows "documentId (widget_of (onUploadDone loaded (Json response) w))
           = property response (documentIdParameter w)
         \<and> state (widget_of (onUploadDone loaded (Json response) w))
             = (if truthy (documentStatusUrl w) then Str ''processing'' else Str ''downloadable'')
         \<and> xhr (widget_of (onUploadDone loaded (Json response) w)) = None"
  using assms
  by (simp add: onUploadDone_accepted Let_def checkDocumentStatus_def split: option.splits)

lemma onUploadDone_polls:
  assumes "loaded \<noteq> 0" "\<not> nullish response" "truthy (property response ''success'')"
    "truthy (documentStatusUrl w)" "toString (state w) \<noteq> None"
  shows "onUploadDone loaded (Json response) w =
           Inr (widget_of (onUploadDone loaded (Json response) w),
                case toString (documentStatusUrl w) of
                  None \<Rightarrow> [Rejected TypeError]
                | Some u \<Rightarrow>
                    (case toString (property response (documentIdParameter w)) of
                       None \<Rightarrow> [Rejected TypeError]
                     | Some i \<Rightarrow>
                         [Fetch StatusRequest (u @ ''?'' @ documentIdParameter w @ ''='' @ i)]))"
  using assms
  by (simp add: onUploadDone_accepted Let_def set_state_throws_Str checkDocumentStatus_def
      url_with_id_def split: option.splits)

lemma onUploadDone_downloadable:
  assumes "loaded \<noteq> 0" "\<not> nullish response" "truthy (property response ''success'')"
    "\<not> truthy (documentStatusUrl w)" "toString (state w) \<noteq> None"
    "toString (downloadUrl w) \<noteq> None"
    "toString (property response (documentIdParameter w)) \<noteq> None"
  shows "onUploadDone loaded (Json response) w =
           Inr (widget_of (onUploadDone loaded (Json response) w), [])"
  using assms by (simp add: onUploadDone_accepted Let_def set_state_throws_Str)

lemma cls_afterSetState_switch:
  "v \<noteq> Str ''scan-failed'' \<Longrightarrow> cls (afterSetState_switch v w) = cls w"
  by (simp add: afterSetState_switch_def split: option.splits)

lemma error_cn_set_state:
  "v \<noteq> Str ''scan-failed'' \<Longrightarrow> error_cn (set_state v w) = error_cn w"
  by (simp add: set_state_def afterSetState_def afterSetState_switch_def split: option.splits)

lemma neo_invalid_in_classes:
  assumes "''neo-invalid'' \<in> set c" and "state_class x = Some old"
  shows "''neo-invalid'' \<in> set (NeoArray_add (NeoArray_remove c old) new)"
proof -
  from assms(2) have "old \<noteq> ''neo-invalid''"
    by (auto simp: state_class_def)
  with assms(1) show ?thesis
    by (simp add: NeoArray_add_def NeoArray_remove_def)
qed

lemma neo_invalid_kept:
  assumes "''neo-invalid'' \<in> set (cls w)" and "v \<noteq> Str ''scan-failed''"
  shows "''neo-invalid'' \<in> set (cls (set_state v w))"
  using assms
  by (auto simp: set_state_def afterSetState_def cls_afterSetState_switch
      neo_invalid_in_classes split: option.splits)

lemma onUploadDone_failed:
  assumes "loaded \<noteq> 0" "\<not> nullish response" "\<not> truthy (property response ''success'')"
  shows "error (widget_of (onUploadDone loaded (Json response) w)) = property response ''message''
         \<and> state (widget_of (onUploadDone loaded (Json response) w)) = Str ''upload-failed''
         \<and> documentId (widget_of (onUploadDone loaded (Json response) w)) = documentId w
         \<and> xhr (widget_of (onUploadDone loaded (Json response) w)) = None
         \<and> (truthy (property response ''message'') \<longrightarrow>
              error_cn (widget_of (onUploadDone loaded (Json response) w))
                = Some (property response ''message'')
              \<and> ''neo-invalid'' \<in> set (cls (widget_of (onUploadDone loaded (Json response) w))))
         \<and> (toString (state w) \<noteq> None \<longrightarrow>
              onUploadDone loaded (Json response) w
                = Inr (widget_of (onUploadDone loaded (Json response) w), []))"
proof -
  define me1 where "me1 = set_error (property response ''message'') (w\<lparr>xhr := None\<rparr>)"
  have w': "widget_of (onUploadDone loaded (Json response) w) = set_state (Str ''upload-failed'') me1"
    using assms by (simp add: onUploadDone_rejected me1_def Let_def)
  have shown: "error_cn (set_state (Str ''upload-failed'') me1) = Some (property response ''message'')
      \<and> ''neo-invalid'' \<in> set (cls (set_state (Str ''upload-failed'') me1))"
    if "truthy (property response ''message'')"
    using set_error_truthy [OF that, of "w\<lparr>xhr := None\<rparr>"] neo_invalid_kept [of me1 "Str ''upload-failed''"]
    by (simp add: error_cn_set_state me1_def)
  have returns: "onUploadDone loaded (Json response) w
                = Inr (set_state (Str ''upload-failed'') me1, [])"
    if "toString (state w) \<noteq> None"
    using assms that by (simp add: onUploadDone_rejected me1_def Let_def set_state_throws_Str)
  show ?thesis
    unfolding w' using shown returns by (simp add: me1_def set_state_error)
qed

text \<open>
  C1 as stated does not hold for every body. A transfer ends with 1200 bytes loaded and
  the body \<^verbatim>\<open>{"success": true, "documentId": {"toString": 1}}\<close>, and a status URL is
  configured. The document id is stored and the state becomes "processing", but the
  template literal of the status request throws a \<^verbatim>\<open>TypeError\<close> when it converts the
  id to a string: the promise of \<^verbatim>\<open>checkDocumentStatus\<close> is rejected, no request is
  sent and no timer is set, so the polling does not start.
\<close>

theorem unconvertible_id_counterexample:
  "truthy (documentStatusUrl (wdg upload_page))
   \<and> onUploadDone 1200 unconvertible_id_body (wdg upload_page)
       = Inr (widget_of (onUploadDone 1200 unconvertible_id_body (wdg upload_page)),
              [Rejected TypeError])
   \<and> state (widget_of (onUploadDone 1200 unconvertible_id_body (wdg upload_page)))
       = Str ''processing''
   \<and> documentId (widget_of (onUploadDone 1200 unconvertible_id_body (wdg upload_page)))
       = Obj [(''toString'', Num ''1'')]
   \<and> map_option observe
        (run [Input [pdf_file], Timeout (UploadResume pdf_file), UploadProgress 1200 1200,
              LoadEnd 1200 unconvertible_id_body] upload_page)
       = Some (Str ''processing'', [], [])"
  by (simp add: observe_def upload_page_def pdf_file_def unconvertible_id_body_def defaults_def
      handler_defs beforeGetMaxSize_def MAX_SAFE_INTEGER_def Let_def)

text \<open>
  C1, as the code has it. With nothing loaded only the transfer handle is dropped:
  state, error text and document id stay. With something loaded and a body that parses to
  a value with a truthy \<^verbatim>\<open>success\<close>, the document id becomes the property of the body
  named by \<^verbatim>\<open>documentIdParameter\<close> ("documentId" by default), and the state becomes
  "processing" with a status URL configured and "downloadable" without one. In
  "processing" the first status request is sent if the status URL and the document id
  convert to strings; if one of them does not, the promise of the poll is rejected and
  nothing is sent. In "downloadable" the handler returns if the download URL and the
  document id convert to strings. With a \<^verbatim>\<open>success\<close> that is not truthy the error text
  is the \<^verbatim>\<open>message\<close> of the body (shown when it is truthy), the state is
  "upload-failed" and the document id stays. (Each of these returns supposes that the
  state before converts to a string, as every state name does.) Over any run of the event
  loop the document id changes only if the run holds the end of a transfer with a truthy
  \<^verbatim>\<open>success\<close>: a widget that starts without a document id has one only after a
  successful upload response.
\<close>

theorem onUploadDone_cases:
  "(\<exists>w'. onUploadDone 0 b w = Inr (w', [])
       \<and> state w' = state w \<and> error w' = error w \<and> documentId w' = documentId w)
   \<and> (loaded \<noteq> 0 \<and> \<not> nullish response \<longrightarrow>
        (truthy (property response ''success'') \<longrightarrow>
           documentId (widget_of (onUploadDone loaded (Json response) w))
             = property response (documentIdParameter w)
           \<and> state (widget_of (onUploadDone loaded (Json response) w))
               = (if truthy (documentStatusUrl w) then Str ''processing''
                  else Str ''downloadable'')
           \<and> xhr (widget_of (onUploadDone loaded (Json response) w)) = None)
        \<and> (truthy (property response ''success'') \<and> truthy (documentStatusUrl w)
             \<and> toString (state w) \<noteq> None \<longrightarrow>
           onUploadDone loaded (Json response) w =
             Inr (widget_of (onUploadDone loaded (Json response) w),
                  case toString (documentStatusUrl w) of
                    None \<Rightarrow> [Rejected TypeError]
                  | Some u \<Rightarrow>
                      (case toString (property response (documentIdParameter w)) of
                         None \<Rightarrow> [Rejected TypeError]
                       | Some i \<Rightarrow>
                           [Fetch StatusRequest
                              (u @ ''?'' @ documentIdParameter w @ ''='' @ i)])))
        \<and> (truthy (property response ''success'') \<and> \<not> truthy (documentStatusUrl w)
             \<and> toString (state w) \<noteq> None \<and> toString (downloadUrl w) \<noteq> None
             \<and> toString (property response (documentIdParameter w)) \<noteq> None \<longrightarrow>
           onUploadDone loaded (Json response) w =
             Inr (widget_of (onUploadDone loaded (Json response) w), []))
        \<and> (\<not> truthy (property response ''success'') \<longrightarrow>
           error (widget_of (onUploadDone loaded (Json response) w))
             = property response ''message''
           \<and> state (widget_of (onUploadDone loaded (Json response) w)) = Str ''upload-failed''
           \<and> documentId (widget_of (onUploadDone loaded (Json response) w)) = documentId w
           \<and> xhr (widget_of (onUploadDone loaded (Json response) w)) = None
           \<and> (truthy (property response ''message'') \<longrightarrow>
                error_cn (widget_of (onUploadDone loaded (Json response) w))
                  = Some (property response ''message'')
                \<and> ''neo-invalid''
                    \<in> set (cls (widget_of (onUploadDone loaded (Json response) w))))
           \<and> (toString (state w) \<noteq> None \<longrightarrow>
                onUploadDone loaded (Json response) w
                  = Inr (widget_of (onUploadDone loaded (Json response) w), []))))
   \<and> documentIdParameter defaults = ''documentId''
   \<and> (run evs p = Some p' \<and> documentId (wdg p') \<noteq> documentId (wdg p) \<longrightarrow>
        (\<exists>n r. LoadEnd n (Json r) \<in> set evs \<and> n \<noteq> 0 \<and> \<not> nullish r
               \<and> truthy (property r ''success'')))"
proof -
  have zero: "\<exists>w'. onUploadDone 0 b w = Inr (w', [])
       \<and> state w' = state w \<and> error w' = error w \<and> documentId w' = documentId w"
    by (simp add: onUploadDone_nothing_loaded)
  have name: "documentIdParameter defaults = ''documentId''"
    by (simp add: defaults_def)
  from zero name onUploadDone_stores [of loaded response w]
    onUploadDone_polls [of loaded response w]
    onUploadDone_downloadable [of loaded response w] onUploadDone_failed [of loaded response w]
    run_documentId [of evs p p']
  show ?thesis
    by blast
qed

theorem onUploadDone_cases_witness:
  "(1200::nat) \<noteq> 0
   \<and> \<not> nullish (Obj [(''success'', Bool True), (''documentId'', Num ''7'')])
   \<and> truthy (property (Obj [(''success'', Bool True), (''documentId'', Num ''7'')]) ''success'')
   \<and> truthy (documentStatusUrl (wdg upload_page))
   \<and> toString (state (wdg upload_page)) \<noteq> None
   \<and> (\<exists>w'. onUploadDone 1200 accepted_body (wdg upload_page)
               = Inr (w', [Fetch StatusRequest ''/status?documentId=7''])
          \<and> documentId w' = Num ''7'' \<and> state w' = Str ''processing'')
   \<and> documentId (wdg upload_page) = Undefined
   \<and> (\<exists>p'. run [Input [pdf_file], Timeout (UploadResume pdf_file), UploadProgress 1200 1200,
                   LoadEnd 1200 accepted_body] upload_page = Some p'
          \<and> documentId (wdg p') = Num ''7'')
   \<and> (\<exists>n r. LoadEnd n (Json r)
                \<in> set [Input [pdf_file], Timeout (UploadResume pdf_file),
                        UploadProgress 1200 1200, LoadEnd 1200 accepted_body]
          \<and> n \<noteq> 0 \<and> truthy (property r ''success''))"
proof -
  let ?r = "Obj [(''success'', Bool True), (''documentId'', Num ''7'')]"
  let ?evs = "[Input [pdf_file], Timeout (UploadResume pdf_file), UploadProgress 1200 1200,
               LoadEnd 1200 accepted_body]"
  have pre: "(1200::nat) \<noteq> 0" "\<not> nullish ?r" "truthy (property ?r ''success'')"
    "truthy (documentStatusUrl (wdg upload_page))"
    "toString (state (wdg upload_page)) \<noteq> None"
    "documentId (wdg upload_page) = Undefined"
    by (simp_all add: nullish_def get_property_def upload_page_def defaults_def)
  have url: "toString (documentStatusUrl (wdg upload_page)) = Some ''/status''"
    "documentIdParameter (wdg upload_page) = ''documentId''"
    "property ?r ''documentId'' = Num ''7''"
    by (simp_all add: upload_page_def defaults_def get_property_def)
  have "documentId (widget_of (onUploadDone 1200 (Json ?r) (wdg upload_page))) = Num ''7''
      \<and> state (widget_of (onUploadDone 1200 (Json ?r) (wdg upload_page))) = Str ''processing''
      \<and> onUploadDone 1200 (Json ?r) (wdg upload_page)
          = Inr (widget_of (onUploadDone 1200 (Json ?r) (wdg upload_page)),
                 [Fetch StatusRequest ''/status?documentId=7''])"
    using onUploadDone_cases [of Malformed "wdg upload_page" 1200 ?r "[]" upload_page upload_page]
      pre
    by (simp add: url get_property_def)
  then have first: "\<exists>w'. onUploadDone 1200 accepted_body (wdg upload_page)
               = Inr (w', [Fetch StatusRequest ''/status?documentId=7''])
          \<and> documentId w' = Num ''7'' \<and> state w' = Str ''processing''"
    unfolding accepted_body_def by blast
  obtain p' where p': "run ?evs upload_page = Some p'" "documentId (wdg p') = Num ''7''"
    using upload_run by auto
  then have "documentId (wdg p') \<noteq> documentId (wdg upload_page)"
    using pre(6) by simp
  with p'(1) have "\<exists>n r. LoadEnd n (Json r) \<in> set ?evs \<and> n \<noteq> 0 \<and> \<not> nullish r
      \<and> truthy (property r ''success'')"
    using onUploadDone_cases [of _ _ _ _ ?evs upload_page p'] by blast
  with pre first p' show ?thesis
    by blast
qed

subsection \<open>Exceptions that leave the handlers\<close>














subsection \<open>A poll and a reset of the session\<close>

text \<open>
  \<^verbatim>\<open>checkDocumentStatus\<close> reads the state when it is called and sends its request only
  in "processing": a timer of a poll that fires in any other state leaves the widget as
  it is and sends nothing, and so does any number of them.
\<close>

lemma poll_not_processing:
  assumes "state (wdg p) \<noteq> Str ''processing''" and "CheckDocumentStatus \<in> set (timers p)"
  shows "step (Timeout CheckDocumentStatus) p
           = Some (p\<lparr>timers := remove1 CheckDocumentStatus (timers p)\<rparr>)"
  using assms by (simp add: checkDocumentStatus_def settle_def)

lemma polls_not_processing:
  assumes "state (wdg q) \<noteq> Str ''processing''" and "set evs \<subseteq> {Timeout CheckDocumentStatus}"
    and "run evs q = Some q'"
  shows "wdg q' = wdg q \<and> fetches q' = fetches q \<and> transfers q' = transfers q"
  using assms
proof (induction evs arbitrary: q)
  case Nil
  then show ?case by simp
next
  case (Cons e es)
  from Cons.prems(2) have e: "e = Timeout CheckDocumentStatus"
    by simp
  from Cons.prems(3) obtain q1 where q1: "step e q = Some q1" "run es q1 = Some q'"
    by (auto split: option.splits)
  from q1(1) have "CheckDocumentStatus \<in> set (timers q)"
    unfolding e by (simp split: if_splits)
  with Cons.prems(1) have "q1 = q\<lparr>timers := remove1 CheckDocumentStatus (timers q)\<rparr>"
    using poll_not_processing [of q] q1(1) unfolding e by simp
  then have same: "wdg q1 = wdg q" "fetches q1 = fetches q" "transfers q1 = transfers q"
    by simp_all
  with Cons.prems(1) have "state (wdg q1) \<noteq> Str ''processing''"
    by simp
  from Cons.IH [OF this _ q1(2)] Cons.prems(2) same show ?case
    by simp
qed

text \<open>
  C2 does not hold of the code. The test of the state stands before the request of a
  poll and nowhere behind it: the answer to a request that is under way when the session
  is reset is handled as if nothing had happened. A file is uploaded and the first status
  answer is "scanning", so a poll is scheduled. The user clicks the action button (the
  delete request is sent), the timer of the poll fires while the state is still
  "processing" (the status request is sent), the delete request is answered with 200
  (the state is "ready"), and then the status request is answered with "downloadable":
  the state leaves "ready" for "downloadable".
\<close>

theorem stale_poll_counterexample:
  "map_option observe (run scanning_run upload_page)
     = Some (Str ''processing'', [CheckDocumentStatus], [])
   \<and> map_option observe (run (scanning_run @ delete_during_poll) upload_page)
     = Some (Str ''ready'', [ClearResume], [StatusRequest])
   \<and> map_option observe (run (scanning_run @ delete_during_poll @ [late_answer]) upload_page)
     = Some (Str ''downloadable'', [ClearResume], [])"
  by (simp add: observe_def scanning_run_def delete_during_poll_def late_answer_def
      upload_page_def pdf_file_def accepted_body_def defaults_def handler_defs status_200
      beforeGetMaxSize_def MAX_SAFE_INTEGER_def Let_def)

end
